theory Spec2Isabelle
  imports Complex_Main "HOL-Library.Sublist" "HOL-Library.AList"
begin

section \<open>Go values shared by the adapters\<close>

text \<open>
  A value of Go's \<^verbatim>\<open>interface{}\<close> as the adapters build and read it: the
  JSON-compatible dynamic values. A \<^verbatim>\<open>map[string]interface{}\<close> is an association
  list read with \<open>map_of\<close> and written with \<open>AList.update\<close> (the order of the keys means
  nothing in Go). A slice inside such a value is the list of its elements: every slice that
  the adapters store is grown by \<^verbatim>\<open>append\<close> from a nil variable or written as a
  literal. The adapters do no arithmetic on numbers, so \<^verbatim>\<open>int\<close> is \<open>int\<close> and a
  finite \<^verbatim>\<open>float64\<close> is the real number it denotes.
\<close>

datatype gvalue =
    VNil
  | VBool bool
  | VInt int
  | VFloat real
  | VStr string
  | VList "gvalue list"
  | VMap "(string \<times> gvalue) list"

type_synonym gmap = "(string \<times> gvalue) list"

text \<open>
  A variable or field of type \<^verbatim>\<open>map[string]interface{}\<close> is nil (\<open>None\<close>) or holds a
  map, which may be empty (\<open>Some []\<close>, what \<^verbatim>\<open>make\<close> returns). A nil map that is
  stored in an \<^verbatim>\<open>interface{}\<close> or handed to \<^verbatim>\<open>json.Marshal\<close> is rendered as
  \<^verbatim>\<open>null\<close>, as the nil value is, and an empty map as \<^verbatim>\<open>{}\<close>.
\<close>

definition map_value :: "gmap option \<Rightarrow> gvalue" where
  "map_value m = (case m of None \<Rightarrow> VNil | Some kvs \<Rightarrow> VMap kvs)"

text \<open>The outcome of a call: a returned value, a returned error (its text), or a run-time panic.\<close>

datatype 'a go_result = Ok 'a | Fail string | Panic string

text \<open>The verb \<^verbatim>\<open>%d\<close> of \<^verbatim>\<open>fmt\<close>: a decimal numeral, with a sign when negative.\<close>

fun fmt_nat :: "nat \<Rightarrow> string" where
  "fmt_nat n =
     (if n < 10 then [''0123456789'' ! n]
      else fmt_nat (n div 10) @ [''0123456789'' ! (n mod 10)])"

definition fmt_d :: "int \<Rightarrow> string" where
  "fmt_d i = (if i < 0 then CHR ''-'' # fmt_nat (nat (- i)) else fmt_nat (nat i))"

text \<open>\<^verbatim>\<open>os.Getenv\<close>: the value of the variable, empty when it is not set.\<close>

type_synonym environ = "string \<Rightarrow> string option"

definition Getenv :: "environ \<Rightarrow> string \<Rightarrow> string" where
  "Getenv env k = (case env k of None \<Rightarrow> [] | Some v \<Rightarrow> v)"

section \<open>The canonical message model (internal/llm/client.go)\<close>

text \<open>
  Field names carry a short prefix of their struct, since record fields share one name space.
  \<^verbatim>\<open>Role\<close> is a string type with four named constants; any other string is a
  value of the type as well.
\<close>

type_synonym Role = string

definition RoleSystem :: Role where "RoleSystem = ''system''"
definition RoleUser :: Role where "RoleUser = ''user''"
definition RoleAssistant :: Role where "RoleAssistant = ''assistant''"
definition RoleTool :: Role where "RoleTool = ''tool''"

record ToolCall =
  tc_ID :: string
  tc_Name :: string
  tc_Parameters :: "gmap option"

record Message =
  m_Role :: Role
  m_Content :: string
  m_ToolCallID :: string
  m_ToolCalls :: "ToolCall list"

record Tool =
  t_Name :: string
  t_Description :: string
  t_Parameters :: "gmap option"

record Usage =
  InputTokens :: int
  OutputTokens :: int

record Response =
  r_Content :: string
  r_ToolCalls :: "ToolCall list"
  r_Usage :: Usage

text \<open>\<^verbatim>\<open>&Response{}\<close>: every field at its zero value.\<close>

definition zero_Response :: Response where
  "zero_Response =
     \<lparr>r_Content = [], r_ToolCalls = [], r_Usage = \<lparr>InputTokens = 0, OutputTokens = 0\<rparr>\<rparr>"

section \<open>HTTP exchange and JSON library\<close>

text \<open>
  The adapters that speak HTTP themselves build one request and hand it to their
  \<^verbatim>\<open>http.Client\<close>. The client is a function from the request to what the three
  library calls \<^verbatim>\<open>http.NewRequestWithContext\<close>, \<^verbatim>\<open>client.Do\<close> and
  \<^verbatim>\<open>io.ReadAll\<close> produce: the first failure among them, or the status code with the
  bytes of the body.
\<close>

record http_request =
  hr_Method :: string
  hr_URL :: string
  hr_Header :: "(string \<times> string) list"
  hr_Body :: string

datatype http_outcome =
    NewRequestFailed string
  | DoFailed string
  | ReadFailed string
  | Received int string

definition StatusOK :: int where "StatusOK = 200"

subsection \<open>Wire types of the Mistral adapter (internal/llm/mistral.go)\<close>

record mistralFunctionCall =
  mfc_Name :: string
  mfc_Arguments :: string

record mistralToolCall =
  mtc_ID :: string
  mtc_Type :: string
  mtc_Function :: mistralFunctionCall

record mistralMessage =
  mm_Role :: string
  mm_Content :: string
  mm_ToolCallID :: string
  mm_ToolCalls :: "mistralToolCall list"

record mistralFunction =
  mf_Name :: string
  mf_Description :: string
  mf_Parameters :: "gmap option"

record mistralTool =
  mt_Type :: string
  mt_Function :: mistralFunction

record mistralRequest =
  mr_Model :: string
  mr_Messages :: "mistralMessage list"
  mr_Tools :: "mistralTool list"
  mr_ToolChoice :: string
  mr_Temperature :: real
  mr_TopP :: real
  mr_MaxTokens :: int

record mistralChoiceMessage =
  cm_Role :: string
  cm_Content :: string
  cm_ToolCalls :: "mistralToolCall list"

record mistralChoice =
  ch_Index :: int
  ch_Message :: mistralChoiceMessage
  ch_FinishReason :: string

record mistralUsage =
  mu_PromptTokens :: int
  mu_CompletionTokens :: int
  mu_TotalTokens :: int

record mistralResponse =
  mresp_ID :: string
  mresp_Object :: string
  mresp_Created :: int
  mresp_Model :: string
  mresp_Choices :: "mistralChoice list"
  mresp_Usage :: mistralUsage

record mistralError =
  me_Object :: string
  me_Message :: string
  me_Type :: string
  me_Code :: string

subsection \<open>Wire types of the Anthropic adapter (internal/ui/styles.go)\<close>

text \<open>
  The anonymous struct \<^verbatim>\<open>apiResp\<close> of \<^verbatim>\<open>parseResponseBody\<close>. The field
  \<^verbatim>\<open>Input\<close> is a \<^verbatim>\<open>json.RawMessage\<close>: the bytes of the value, not yet decoded
  (empty when the block has no input).
\<close>

record anthropicBlock =
  ab_Type :: string
  ab_Text :: string
  ab_ID :: string
  ab_Name :: string
  ab_Input :: string

record anthropicUsage =
  au_InputTokens :: int
  au_OutputTokens :: int

record apiResp =
  ar_Content :: "anthropicBlock list"
  ar_StopReason :: string
  ar_Usage :: anthropicUsage

subsection \<open>The functions of encoding/json that the adapters call\<close>

text \<open>
  \<^verbatim>\<open>json.Marshal\<close> renders a value as bytes or fails; \<^verbatim>\<open>json.Unmarshal\<close> is
  called at four target types, and at each it fails (\<open>Inl\<close>, with the error's text) or fills
  the target. At a nil map as the target it returns the decoded map, or leaves the map nil
  when the bytes are \<^verbatim>\<open>null\<close>. The library is a parameter of the adapters' model.
\<close>

record json_lib =
  Marshal :: "gvalue \<Rightarrow> string + string"
  UnmarshalParams :: "string \<Rightarrow> string + gmap option"
  UnmarshalMistralError :: "string \<Rightarrow> string + mistralError"
  UnmarshalMistralResponse :: "string \<Rightarrow> string + mistralResponse"
  UnmarshalApiResp :: "string \<Rightarrow> string + apiResp"

section \<open>The Mistral adapter (internal/llm/mistral.go)\<close>

definition mistralAPIURL :: string where
  "mistralAPIURL = ''https://api.mistral.ai/v1/chat/completions''"

record MistralClient =
  mc_apiKey :: string
  mc_model :: string
  mc_client :: "http_request \<Rightarrow> http_outcome"

definition NewMistralClient ::
  "environ \<Rightarrow> (http_request \<Rightarrow> http_outcome) \<Rightarrow> string \<Rightarrow> string + MistralClient" where
  "NewMistralClient env http model =
     (let apiKey = Getenv env ''MISTRAL_API_KEY'' in
      if apiKey = [] then Inl ''MISTRAL_API_KEY environment variable not set''
      else
        let model = (if model = [] then ''mistral-large-latest'' else model) in
        Inr \<lparr>mc_apiKey = apiKey, mc_model = model, mc_client = http\<rparr>)"

subsection \<open>The struct tags: what \<^verbatim>\<open>json.Marshal\<close> is given for a request\<close>

text \<open>
  A field tagged \<^verbatim>\<open>omitempty\<close> is left out when it is the empty string, a nil or
  empty slice (both the empty list here) or the number zero.
\<close>

definition mistralFunctionCall_json :: "mistralFunctionCall \<Rightarrow> gvalue" where
  "mistralFunctionCall_json f =
     VMap [(''name'', VStr (mfc_Name f)), (''arguments'', VStr (mfc_Arguments f))]"

definition mistralToolCall_json :: "mistralToolCall \<Rightarrow> gvalue" where
  "mistralToolCall_json tc =
     VMap [(''id'', VStr (mtc_ID tc)), (''type'', VStr (mtc_Type tc)),
           (''function'', mistralFunctionCall_json (mtc_Function tc))]"

definition mistralMessage_json :: "mistralMessage \<Rightarrow> gvalue" where
  "mistralMessage_json m =
     VMap ([(''role'', VStr (mm_Role m)), (''content'', VStr (mm_Content m))]
           @ (if mm_ToolCallID m = [] then [] else [(''tool_call_id'', VStr (mm_ToolCallID m))])
           @ (if mm_ToolCalls m = [] then []
              else [(''tool_calls'', VList (map mistralToolCall_json (mm_ToolCalls m)))]))"

definition mistralTool_json :: "mistralTool \<Rightarrow> gvalue" where
  "mistralTool_json t =
     VMap [(''type'', VStr (mt_Type t)),
           (''function'',
              VMap [(''name'', VStr (mf_Name (mt_Function t))),
                    (''description'', VStr (mf_Description (mt_Function t))),
                    (''parameters'', map_value (mf_Parameters (mt_Function t)))])]"

definition mistralRequest_fields :: "mistralRequest \<Rightarrow> gmap" where
  "mistralRequest_fields r =
     [(''model'', VStr (mr_Model r)),
      (''messages'', VList (map mistralMessage_json (mr_Messages r)))]
     @ (if mr_Tools r = [] then [] else [(''tools'', VList (map mistralTool_json (mr_Tools r)))])
     @ (if mr_ToolChoice r = [] then [] else [(''tool_choice'', VStr (mr_ToolChoice r))])
     @ (if mr_Temperature r = 0 then [] else [(''temperature'', VFloat (mr_Temperature r))])
     @ (if mr_TopP r = 0 then [] else [(''top_p'', VFloat (mr_TopP r))])
     @ (if mr_MaxTokens r = 0 then [] else [(''max_tokens'', VInt (mr_MaxTokens r))])"

subsection \<open>convertMessages and convertTools\<close>

text \<open>
  The inner loop of \<^verbatim>\<open>convertMessages\<close>: one wire tool call appended per canonical
  one. The error of \<^verbatim>\<open>json.Marshal\<close> is dropped, which leaves the arguments empty.
\<close>

fun mistral_appendToolCalls ::
  "json_lib \<Rightarrow> ToolCall list \<Rightarrow> mistralToolCall list \<Rightarrow> mistralToolCall list" where
  "mistral_appendToolCalls J [] acc = acc"
| "mistral_appendToolCalls J (tc # tcs) acc =
     (let argsJSON = (case Marshal J (map_value (tc_Parameters tc)) of Inl _ \<Rightarrow> [] | Inr b \<Rightarrow> b) in
      mistral_appendToolCalls J tcs
        (acc @ [\<lparr>mtc_ID = tc_ID tc, mtc_Type = ''function'',
                 mtc_Function = \<lparr>mfc_Name = tc_Name tc, mfc_Arguments = argsJSON\<rparr>\<rparr>]))"

definition mistral_convertMessage :: "json_lib \<Rightarrow> Message \<Rightarrow> mistralMessage" where
  "mistral_convertMessage J msg =
     (let mistralMsg =
            \<lparr>mm_Role = [], mm_Content = m_Content msg, mm_ToolCallID = [], mm_ToolCalls = []\<rparr> in
      if m_Role msg = RoleSystem then mistralMsg\<lparr>mm_Role := ''system''\<rparr>
      else if m_Role msg = RoleUser then mistralMsg\<lparr>mm_Role := ''user''\<rparr>
      else if m_Role msg = RoleAssistant then
        (if length (m_ToolCalls msg) > 0
         then mistralMsg\<lparr>mm_Role := ''assistant'',
                mm_ToolCalls := mistral_appendToolCalls J (m_ToolCalls msg) []\<rparr>
         else mistralMsg\<lparr>mm_Role := ''assistant''\<rparr>)
      else if m_Role msg = RoleTool then
        mistralMsg\<lparr>mm_Role := ''tool'', mm_ToolCallID := m_ToolCallID msg\<rparr>
      else mistralMsg)"

fun mistral_convertMessages_loop ::
  "json_lib \<Rightarrow> Message list \<Rightarrow> mistralMessage list \<Rightarrow> mistralMessage list" where
  "mistral_convertMessages_loop J [] result = result"
| "mistral_convertMessages_loop J (msg # msgs) result =
     mistral_convertMessages_loop J msgs (result @ [mistral_convertMessage J msg])"

definition mistral_convertMessages :: "json_lib \<Rightarrow> Message list \<Rightarrow> mistralMessage list" where
  "mistral_convertMessages J messages = mistral_convertMessages_loop J messages []"

fun mistral_convertTools_loop :: "Tool list \<Rightarrow> mistralTool list \<Rightarrow> mistralTool list" where
  "mistral_convertTools_loop [] result = result"
| "mistral_convertTools_loop (tool # tools) result =
     mistral_convertTools_loop tools
       (result @ [\<lparr>mt_Type = ''function'',
                    mt_Function = \<lparr>mf_Name = t_Name tool, mf_Description = t_Description tool,
                                    mf_Parameters = t_Parameters tool\<rparr>\<rparr>])"

definition mistral_convertTools :: "Tool list \<Rightarrow> mistralTool list" where
  "mistral_convertTools tools = mistral_convertTools_loop tools []"

subsection \<open>parseResponse\<close>

fun mistral_parseToolCalls :: "json_lib \<Rightarrow> mistralToolCall list \<Rightarrow> Response \<Rightarrow> Response" where
  "mistral_parseToolCalls J [] response = response"
| "mistral_parseToolCalls J (tc # tcs) response =
     (let params = (case UnmarshalParams J (mfc_Arguments (mtc_Function tc)) of
                      Inl _ \<Rightarrow> Some [] | Inr p \<Rightarrow> p) in
      mistral_parseToolCalls J tcs
        (response\<lparr>r_ToolCalls := r_ToolCalls response
           @ [\<lparr>tc_ID = mtc_ID tc, tc_Name = mfc_Name (mtc_Function tc),
                tc_Parameters = params\<rparr>]\<rparr>))"

definition mistral_parseResponse :: "json_lib \<Rightarrow> mistralResponse \<Rightarrow> Response" where
  "mistral_parseResponse J resp =
     (case mresp_Choices resp of
        [] \<Rightarrow> zero_Response
      | choice # _ \<Rightarrow>
          mistral_parseToolCalls J (cm_ToolCalls (ch_Message choice))
            \<lparr>r_Content = cm_Content (ch_Message choice), r_ToolCalls = [],
             r_Usage = \<lparr>InputTokens = mu_PromptTokens (mresp_Usage resp),
                        OutputTokens = mu_CompletionTokens (mresp_Usage resp)\<rparr>\<rparr>)"

subsection \<open>Chat\<close>

text \<open>The request struct that \<^verbatim>\<open>Chat\<close> fills before it marshals it.\<close>

definition mistral_request :: "json_lib \<Rightarrow> MistralClient \<Rightarrow> Message list \<Rightarrow> Tool list \<Rightarrow> mistralRequest" where
  "mistral_request J c messages tools =
     (let req = \<lparr>mr_Model = mc_model c, mr_Messages = mistral_convertMessages J messages,
                 mr_Tools = [], mr_ToolChoice = [], mr_Temperature = 7 / 10, mr_TopP = 1,
                 mr_MaxTokens = 4096\<rparr> in
      if length tools > 0
      then req\<lparr>mr_Tools := mistral_convertTools tools, mr_ToolChoice := ''auto''\<rparr>
      else req)"

definition mistral_httpReq :: "MistralClient \<Rightarrow> string \<Rightarrow> http_request" where
  "mistral_httpReq c body =
     \<lparr>hr_Method = ''POST'', hr_URL = mistralAPIURL,
      hr_Header = [(''Content-Type'', ''application/json''),
                   (''Authorization'', ''Bearer '' @ mc_apiKey c)],
      hr_Body = body\<rparr>"

definition mistral_Chat ::
  "json_lib \<Rightarrow> MistralClient \<Rightarrow> Message list \<Rightarrow> Tool list \<Rightarrow> Response go_result" where
  "mistral_Chat J c messages tools =
     (case Marshal J (VMap (mistralRequest_fields (mistral_request J c messages tools))) of
        Inl err \<Rightarrow> Fail (''failed to marshal request: '' @ err)
      | Inr body \<Rightarrow>
          (case mc_client c (mistral_httpReq c body) of
             NewRequestFailed err \<Rightarrow> Fail (''failed to create request: '' @ err)
           | DoFailed err \<Rightarrow> Fail (''request failed: '' @ err)
           | ReadFailed err \<Rightarrow> Fail (''failed to read response: '' @ err)
           | Received StatusCode respBody \<Rightarrow>
               if StatusCode \<noteq> StatusOK then
                 (case UnmarshalMistralError J respBody of
                    Inr apiErr \<Rightarrow>
                      if me_Message apiErr \<noteq> []
                      then Fail (''(HTTP Error '' @ fmt_d StatusCode @ '') '' @ me_Message apiErr)
                      else Fail (''HTTP '' @ fmt_d StatusCode @ '': '' @ respBody)
                  | Inl _ \<Rightarrow> Fail (''HTTP '' @ fmt_d StatusCode @ '': '' @ respBody))
               else
                 (case UnmarshalMistralResponse J respBody of
                    Inl err \<Rightarrow> Fail (''failed to parse response: '' @ err)
                  | Inr mistralResp \<Rightarrow> Ok (mistral_parseResponse J mistralResp))))"

section \<open>The Anthropic adapter (package llm, in internal/ui/styles.go)\<close>

definition anthropicAPI :: string where
  "anthropicAPI = ''https://api.anthropic.com/v1/messages''"

record AnthropicClient =
  ac_apikey :: string
  ac_model :: string
  ac_client :: "http_request \<Rightarrow> http_outcome"

definition NewAnthropicClient ::
  "environ \<Rightarrow> (http_request \<Rightarrow> http_outcome) \<Rightarrow> string \<Rightarrow> string + AnthropicClient" where
  "NewAnthropicClient env http model =
     (let apiKey = Getenv env ''ANTHROPIC_API_KEY'' in
      if apiKey = [] then Inl ''ANTHROPIC_API_KEY environment variable not set''
      else
        let model = (if model = [] then ''claude-sonnet-4-20250514'' else model) in
        Inr \<lparr>ac_apikey = apiKey, ac_model = model, ac_client = http\<rparr>)"

subsection \<open>buildRequest and convertTools\<close>

fun anthropic_appendToolUse :: "ToolCall list \<Rightarrow> gmap list \<Rightarrow> gmap list" where
  "anthropic_appendToolUse [] contentBlocks = contentBlocks"
| "anthropic_appendToolUse (tc # tcs) contentBlocks =
     anthropic_appendToolUse tcs
       (contentBlocks @ [ [(''type'', VStr ''tool_use''), (''id'', VStr (tc_ID tc)),
                          (''name'', VStr (tc_Name tc)), (''input'', map_value (tc_Parameters tc))] ])"

text \<open>The body of the loop of \<^verbatim>\<open>buildRequest\<close> for a message that is not a system message.\<close>

definition anthropic_message :: "Message \<Rightarrow> gmap" where
  "anthropic_message msg =
     (let anthropicMsg = [(''role'', VStr (m_Role msg))] in
      if m_Role msg = RoleTool then
        AList.update ''content''
          (VList [VMap [(''type'', VStr ''tool_result''),
                        (''tool_use_id'', VStr (m_ToolCallID msg)),
                        (''content'', VStr (m_Content msg))] ])
          (AList.update ''role'' (VStr ''user'') anthropicMsg)
      else if m_Role msg = RoleAssistant \<and> length (m_ToolCalls msg) > 0 then
        (let contentBlocks =
               (if m_Content msg \<noteq> []
                then [ [(''type'', VStr ''text''), (''text'', VStr (m_Content msg))] ] else []);
             contentBlocks = anthropic_appendToolUse (m_ToolCalls msg) contentBlocks in
         AList.update ''content'' (VList (map VMap contentBlocks)) anthropicMsg)
      else AList.update ''content'' (VStr (m_Content msg)) anthropicMsg)"

fun anthropic_buildRequest_loop ::
  "Message list \<Rightarrow> string \<times> gmap list \<Rightarrow> string \<times> gmap list" where
  "anthropic_buildRequest_loop [] st = st"
| "anthropic_buildRequest_loop (msg # msgs) (system, convMessages) =
     (if m_Role msg = RoleSystem
      then anthropic_buildRequest_loop msgs (m_Content msg, convMessages)
      else anthropic_buildRequest_loop msgs (system, convMessages @ [anthropic_message msg]))"

fun anthropic_convertTools_loop :: "Tool list \<Rightarrow> gmap list \<Rightarrow> gmap list" where
  "anthropic_convertTools_loop [] result = result"
| "anthropic_convertTools_loop (tool # tools) result =
     anthropic_convertTools_loop tools
       (result @ [ [(''name'', VStr (t_Name tool)), (''description'', VStr (t_Description tool)),
                   (''input_schema'', map_value (t_Parameters tool))] ])"

definition anthropic_convertTools :: "Tool list \<Rightarrow> gmap list" where
  "anthropic_convertTools tools = anthropic_convertTools_loop tools []"

definition anthropic_buildRequest :: "AnthropicClient \<Rightarrow> Message list \<Rightarrow> Tool list \<Rightarrow> gmap" where
  "anthropic_buildRequest c messages tools =
     (case anthropic_buildRequest_loop messages ([], []) of
        (system, convMessages) \<Rightarrow>
          (let req = [(''model'', VStr (ac_model c)), (''max_tokens'', VInt 4096),
                      (''messages'', VList (map VMap convMessages))];
               req = (if system \<noteq> [] then AList.update ''system'' (VStr system) req else req);
               req = (if length tools > 0
                      then AList.update ''tools'' (VList (map VMap (anthropic_convertTools tools))) req
                      else req)
           in req))"

subsection \<open>parseResponseBody and Chat\<close>

fun anthropic_parseBlocks :: "json_lib \<Rightarrow> anthropicBlock list \<Rightarrow> Response \<Rightarrow> Response" where
  "anthropic_parseBlocks J [] response = response"
| "anthropic_parseBlocks J (block # blocks) response =
     anthropic_parseBlocks J blocks
       (if ab_Type block = ''text'' then
          response\<lparr>r_Content := r_Content response @ ab_Text block\<rparr>
        else if ab_Type block = ''tool_use'' then
          (let params = (case UnmarshalParams J (ab_Input block) of
                           Inl _ \<Rightarrow> Some [] | Inr p \<Rightarrow> p) in
           response\<lparr>r_ToolCalls := r_ToolCalls response
             @ [\<lparr>tc_ID = ab_ID block, tc_Name = ab_Name block, tc_Parameters = params\<rparr>]\<rparr>)
        else response)"

definition anthropic_parseResponseBody :: "json_lib \<Rightarrow> string \<Rightarrow> Response go_result" where
  "anthropic_parseResponseBody J body =
     (case UnmarshalApiResp J body of
        Inl err \<Rightarrow> Fail (''failed to parse response: '' @ err)
      | Inr apiResp \<Rightarrow>
          Ok (anthropic_parseBlocks J (ar_Content apiResp)
                \<lparr>r_Content = [], r_ToolCalls = [],
                 r_Usage = \<lparr>InputTokens = au_InputTokens (ar_Usage apiResp),
                            OutputTokens = au_OutputTokens (ar_Usage apiResp)\<rparr>\<rparr>))"

definition anthropic_httpReq :: "AnthropicClient \<Rightarrow> string \<Rightarrow> http_request" where
  "anthropic_httpReq c jsonBody =
     \<lparr>hr_Method = ''POST'', hr_URL = anthropicAPI,
      hr_Header = [(''Content-Type'', ''application/json''), (''x-api-key'', ac_apikey c),
                   (''anthropic-version'', ''2023-06-01'')],
      hr_Body = jsonBody\<rparr>"

definition anthropic_Chat ::
  "json_lib \<Rightarrow> AnthropicClient \<Rightarrow> Message list \<Rightarrow> Tool list \<Rightarrow> Response go_result" where
  "anthropic_Chat J c messages tools =
     (case Marshal J (VMap (anthropic_buildRequest c messages tools)) of
        Inl err \<Rightarrow> Fail (''failed to marshal request: '' @ err)
      | Inr jsonBody \<Rightarrow>
          (case ac_client c (anthropic_httpReq c jsonBody) of
             NewRequestFailed err \<Rightarrow> Fail (''failed to create requests: '' @ err)
           | DoFailed err \<Rightarrow> Fail (''request failed: '' @ err)
           | ReadFailed err \<Rightarrow> Fail (''failed to read response: '' @ err)
           | Received StatusCode body \<Rightarrow>
               if StatusCode \<noteq> StatusOK
               then Fail (''API error (status '' @ fmt_d StatusCode @ ''): '' @ body)
               else anthropic_parseResponseBody J body))"

section \<open>The OpenAI adapter (internal/llm/openai.go)\<close>

subsection \<open>The types of the vendor's client library that the adapter fills and reads\<close>

text \<open>
  The adapter talks to the vendor through the vendor's own client library. Of the
  library's parameter and response structs the fields below are the ones the adapter
  touches, with \<^verbatim>\<open>ToolChoice\<close> of the request parameters besides. An optional
  field is an \<open>option\<close>: \<open>None\<close> is the zero value of a field that a struct literal
  does not mention. The slice \<^verbatim>\<open>Tools\<close> of the request parameters is an \<open>option\<close>
  as well: \<open>None\<close> is the nil slice of a field that was never assigned, \<open>Some []\<close>
  would be an empty list. The message union holds one variant; the constructors
  \<^verbatim>\<open>SystemMessage\<close>, \<^verbatim>\<open>UserMessage\<close>, \<^verbatim>\<open>AssistantMessage\<close> and
  \<^verbatim>\<open>ToolMessage\<close> of the library wrap their arguments in the variant of their role.
\<close>

record ChatCompletionMessageToolCallFunctionParam =
  fp_Name :: string
  fp_Arguments :: string

record ChatCompletionMessageToolCallParam =
  tcp_ID :: string
  tcp_Type :: string
  tcp_Function :: ChatCompletionMessageToolCallFunctionParam

record ChatCompletionAssistantMessageParam =
  amp_Content :: "string option"
  amp_ToolCalls :: "ChatCompletionMessageToolCallParam list"

datatype ChatCompletionMessageParamUnion =
    OfSystem string
  | OfUser string
  | OfAssistant ChatCompletionAssistantMessageParam
  | OfTool string string

definition SystemMessage :: "string \<Rightarrow> ChatCompletionMessageParamUnion" where
  "SystemMessage content = OfSystem content"

definition UserMessage :: "string \<Rightarrow> ChatCompletionMessageParamUnion" where
  "UserMessage content = OfUser content"

definition AssistantMessage :: "string \<Rightarrow> ChatCompletionMessageParamUnion" where
  "AssistantMessage content = OfAssistant \<lparr>amp_Content = Some content, amp_ToolCalls = []\<rparr>"

definition ToolMessage :: "string \<Rightarrow> string \<Rightarrow> ChatCompletionMessageParamUnion" where
  "ToolMessage content toolCallID = OfTool content toolCallID"

record FunctionDefinitionParam =
  fd_Name :: string
  fd_Description :: "string option"
  fd_Parameters :: "gmap option"

record ChatCompletionToolParam =
  tp_Type :: string
  tp_Function :: FunctionDefinitionParam

record ChatCompletionNewParams =
  np_Messages :: "ChatCompletionMessageParamUnion list"
  np_Model :: string
  np_Tools :: "ChatCompletionToolParam list option"
  np_ToolChoice :: "string option"

record ChatCompletionMessageToolCallFunction =
  cf_Name :: string
  cf_Arguments :: string

record ChatCompletionMessageToolCall =
  ctc_ID :: string
  ctc_Function :: ChatCompletionMessageToolCallFunction

record ChatCompletionMessage =
  ccm_Content :: string
  ccm_ToolCalls :: "ChatCompletionMessageToolCall list"

record ChatCompletionChoice =
  cc_Message :: ChatCompletionMessage

record CompletionUsage =
  cu_PromptTokens :: int
  cu_CompletionTokens :: int

record ChatCompletion =
  comp_Choices :: "ChatCompletionChoice list"
  comp_Usage :: CompletionUsage

text \<open>
  \<^verbatim>\<open>client.Chat.Completions.New\<close>: the library sends the parameters and returns its
  error (the text) or the decoded completion.
\<close>

type_synonym openai_sdk = "ChatCompletionNewParams \<Rightarrow> string + ChatCompletion"

record OpenAIClient =
  oc_client :: openai_sdk

text \<open>
  \<^verbatim>\<open>openai.NewClient()\<close> builds the library's client from the process environment;
  the constructor of the adapter returns it with a nil error.
\<close>

definition NewOpenAIClient :: "(environ \<Rightarrow> openai_sdk) \<Rightarrow> environ \<Rightarrow> string + OpenAIClient" where
  "NewOpenAIClient NewClient env = Inr \<lparr>oc_client = NewClient env\<rparr>"

subsection \<open>Chat\<close>

fun openai_appendToolCalls ::
  "json_lib \<Rightarrow> ToolCall list \<Rightarrow> ChatCompletionMessageToolCallParam list
     \<Rightarrow> ChatCompletionMessageToolCallParam list" where
  "openai_appendToolCalls J [] toolCalls = toolCalls"
| "openai_appendToolCalls J (tc # tcs) toolCalls =
     (let argsJSON = (case Marshal J (map_value (tc_Parameters tc)) of Inl _ \<Rightarrow> [] | Inr b \<Rightarrow> b) in
      openai_appendToolCalls J tcs
        (toolCalls @ [\<lparr>tcp_ID = tc_ID tc, tcp_Type = ''function'',
                       tcp_Function = \<lparr>fp_Name = tc_Name tc, fp_Arguments = argsJSON\<rparr>\<rparr>]))"

text \<open>Step 1, the body of the loop: a message of a role outside the four cases adds nothing.\<close>

definition openai_appendMessage ::
  "json_lib \<Rightarrow> Message \<Rightarrow> ChatCompletionMessageParamUnion list
     \<Rightarrow> ChatCompletionMessageParamUnion list" where
  "openai_appendMessage J msg openaiMessages =
     (if m_Role msg = RoleSystem then openaiMessages @ [SystemMessage (m_Content msg)]
      else if m_Role msg = RoleUser then openaiMessages @ [UserMessage (m_Content msg)]
      else if m_Role msg = RoleAssistant then
        (if length (m_ToolCalls msg) > 0
         then openaiMessages
                @ [OfAssistant \<lparr>amp_Content = None,
                     amp_ToolCalls = openai_appendToolCalls J (m_ToolCalls msg) []\<rparr>]
         else openaiMessages @ [AssistantMessage (m_Content msg)])
      else if m_Role msg = RoleTool then
        openaiMessages @ [ToolMessage (m_Content msg) (m_ToolCallID msg)]
      else openaiMessages)"

fun openai_messages_loop ::
  "json_lib \<Rightarrow> Message list \<Rightarrow> ChatCompletionMessageParamUnion list
     \<Rightarrow> ChatCompletionMessageParamUnion list" where
  "openai_messages_loop J [] openaiMessages = openaiMessages"
| "openai_messages_loop J (msg # msgs) openaiMessages =
     openai_messages_loop J msgs (openai_appendMessage J msg openaiMessages)"

fun openai_tools_loop :: "Tool list \<Rightarrow> ChatCompletionToolParam list \<Rightarrow> ChatCompletionToolParam list" where
  "openai_tools_loop [] openaiTools = openaiTools"
| "openai_tools_loop (tool # tools) openaiTools =
     openai_tools_loop tools
       (openaiTools @ [\<lparr>tp_Type = ''function'',
                        tp_Function = \<lparr>fd_Name = t_Name tool,
                                        fd_Description = Some (t_Description tool),
                                        fd_Parameters = t_Parameters tool\<rparr>\<rparr>])"

text \<open>
  Steps 1 to 3 up to the call: the parameters handed to the library. \<^verbatim>\<open>Tools\<close> is
  assigned only under the guard, hence only a slice that holds a tool.
\<close>

definition openai_params :: "json_lib \<Rightarrow> Message list \<Rightarrow> Tool list \<Rightarrow> ChatCompletionNewParams" where
  "openai_params J messages tools =
     (let openaiMessages = openai_messages_loop J messages [];
          openaiTools = openai_tools_loop tools [];
          params = \<lparr>np_Messages = openaiMessages, np_Model = ''gpt-4o'', np_Tools = None,
                    np_ToolChoice = None\<rparr> in
      if length openaiTools > 0 then params\<lparr>np_Tools := Some openaiTools\<rparr> else params)"

fun openai_parseToolCalls ::
  "json_lib \<Rightarrow> ChatCompletionMessageToolCall list \<Rightarrow> Response \<Rightarrow> Response" where
  "openai_parseToolCalls J [] response = response"
| "openai_parseToolCalls J (tc # tcs) response =
     (let params = (case UnmarshalParams J (cf_Arguments (ctc_Function tc)) of
                      Inl _ \<Rightarrow> Some [] | Inr p \<Rightarrow> p) in
      openai_parseToolCalls J tcs
        (response\<lparr>r_ToolCalls := r_ToolCalls response
           @ [\<lparr>tc_ID = ctc_ID tc, tc_Name = cf_Name (ctc_Function tc),
                tc_Parameters = params\<rparr>]\<rparr>))"

text \<open>
  Step 4 reads \<^verbatim>\<open>resp.Choices[0]\<close> with no check of the length: on a completion
  without choices the index expression panics.
\<close>

definition openai_Chat ::
  "json_lib \<Rightarrow> OpenAIClient \<Rightarrow> Message list \<Rightarrow> Tool list \<Rightarrow> Response go_result" where
  "openai_Chat J c messages tools =
     (case oc_client c (openai_params J messages tools) of
        Inl err \<Rightarrow> Fail (''request failed: '' @ err)
      | Inr resp \<Rightarrow>
          (case comp_Choices resp of
             [] \<Rightarrow> Panic ''runtime error: index out of range [0] with length 0''
           | choice # _ \<Rightarrow>
               Ok (openai_parseToolCalls J (ccm_ToolCalls (cc_Message choice))
                     \<lparr>r_Content = ccm_Content (cc_Message choice), r_ToolCalls = [],
                      r_Usage = \<lparr>InputTokens = cu_PromptTokens (comp_Usage resp),
                                 OutputTokens = cu_CompletionTokens (comp_Usage resp)\<rparr>\<rparr>)))"

section \<open>What a call receives and what it returns\<close>

text \<open>
  The exchange of a call went through: the request was marshalled, the client got status 200
  with a body, and the body decoded to the vendor response \<open>resp\<close>.
\<close>

definition mistral_receives ::
  "json_lib \<Rightarrow> MistralClient \<Rightarrow> Message list \<Rightarrow> Tool list \<Rightarrow> mistralResponse \<Rightarrow> bool" where
  "mistral_receives J c messages tools resp =
     (case Marshal J (VMap (mistralRequest_fields (mistral_request J c messages tools))) of
        Inl _ \<Rightarrow> False
      | Inr body \<Rightarrow>
          (case mc_client c (mistral_httpReq c body) of
             Received StatusCode respBody \<Rightarrow>
               StatusCode = StatusOK \<and> UnmarshalMistralResponse J respBody = Inr resp
           | _ \<Rightarrow> False))"

definition anthropic_receives ::
  "json_lib \<Rightarrow> AnthropicClient \<Rightarrow> Message list \<Rightarrow> Tool list \<Rightarrow> apiResp \<Rightarrow> bool" where
  "anthropic_receives J c messages tools resp =
     (case Marshal J (VMap (anthropic_buildRequest c messages tools)) of
        Inl _ \<Rightarrow> False
      | Inr jsonBody \<Rightarrow>
          (case ac_client c (anthropic_httpReq c jsonBody) of
             Received StatusCode body \<Rightarrow>
               StatusCode = StatusOK \<and> UnmarshalApiResp J body = Inr resp
           | _ \<Rightarrow> False))"

definition openai_receives ::
  "json_lib \<Rightarrow> OpenAIClient \<Rightarrow> Message list \<Rightarrow> Tool list \<Rightarrow> ChatCompletion \<Rightarrow> bool" where
  "openai_receives J c messages tools resp =
     (oc_client c (openai_params J messages tools) = Inr resp)"

text \<open>
  The exchange ended in a status other than 200: the client got \<open>StatusCode\<close> with the
  body \<open>respBody\<close>.
\<close>

definition mistral_rejected ::
  "json_lib \<Rightarrow> MistralClient \<Rightarrow> Message list \<Rightarrow> Tool list \<Rightarrow> int \<Rightarrow> string \<Rightarrow> bool" where
  "mistral_rejected J c messages tools StatusCode respBody =
     (StatusCode \<noteq> StatusOK \<and>
      (case Marshal J (VMap (mistralRequest_fields (mistral_request J c messages tools))) of
         Inl _ \<Rightarrow> False
       | Inr body \<Rightarrow> mc_client c (mistral_httpReq c body) = Received StatusCode respBody))"

definition anthropic_rejected ::
  "json_lib \<Rightarrow> AnthropicClient \<Rightarrow> Message list \<Rightarrow> Tool list \<Rightarrow> int \<Rightarrow> string \<Rightarrow> bool" where
  "anthropic_rejected J c messages tools StatusCode body =
     (StatusCode \<noteq> StatusOK \<and>
      (case Marshal J (VMap (anthropic_buildRequest c messages tools)) of
         Inl _ \<Rightarrow> False
       | Inr jsonBody \<Rightarrow> ac_client c (anthropic_httpReq c jsonBody) = Received StatusCode body))"

text \<open>The tool calls that a vendor response carries, in the order of the response.\<close>

definition mistral_vendor_calls :: "mistralResponse \<Rightarrow> mistralToolCall list" where
  "mistral_vendor_calls resp =
     (case mresp_Choices resp of [] \<Rightarrow> [] | choice # _ \<Rightarrow> cm_ToolCalls (ch_Message choice))"

definition anthropic_vendor_calls :: "apiResp \<Rightarrow> anthropicBlock list" where
  "anthropic_vendor_calls resp = filter (\<lambda>block. ab_Type block = ''tool_use'') (ar_Content resp)"

text \<open>The tool calls, and the error text, of what \<^verbatim>\<open>Chat\<close> returned.\<close>

definition returned_calls :: "Response go_result \<Rightarrow> ToolCall list option" where
  "returned_calls res = (case res of Ok r \<Rightarrow> Some (r_ToolCalls r) | _ \<Rightarrow> None)"

definition returned_error :: "Response go_result \<Rightarrow> string option" where
  "returned_error res = (case res of Fail e \<Rightarrow> Some e | _ \<Rightarrow> None)"

text \<open>The argument payload decoded, or the empty mapping where it does not decode.\<close>

definition params_or_empty :: "json_lib \<Rightarrow> string \<Rightarrow> gmap option" where
  "params_or_empty J args = (case UnmarshalParams J args of Inl _ \<Rightarrow> Some [] | Inr p \<Rightarrow> p)"

text \<open>
  The reading of an error envelope that the specification asks of every adapter: the
  envelope's message when the body decodes as an envelope with a message, the raw body
  otherwise. An error carries a status and a detail when its text contains the decimal
  status code and the detail.
\<close>

definition envelope_message :: "json_lib \<Rightarrow> string \<Rightarrow> string option" where
  "envelope_message J body =
     (case UnmarshalMistralError J body of
        Inl _ \<Rightarrow> None
      | Inr apiErr \<Rightarrow> if me_Message apiErr \<noteq> [] then Some (me_Message apiErr) else None)"

definition spec_error_detail :: "json_lib \<Rightarrow> string \<Rightarrow> string" where
  "spec_error_detail J body = (case envelope_message J body of None \<Rightarrow> body | Some m \<Rightarrow> m)"

definition error_carries :: "Response go_result \<Rightarrow> int \<Rightarrow> string \<Rightarrow> bool" where
  "error_carries res StatusCode detail =
     (case res of
        Fail e \<Rightarrow> sublist (fmt_d StatusCode) e \<and> sublist detail e
      | _ \<Rightarrow> False)"

text \<open>The system messages of a conversation and the others, each in order.\<close>

definition system_messages :: "Message list \<Rightarrow> Message list" where
  "system_messages messages = filter (\<lambda>msg. m_Role msg = RoleSystem) messages"

definition conversation_messages :: "Message list \<Rightarrow> Message list" where
  "conversation_messages messages = filter (\<lambda>msg. m_Role msg \<noteq> RoleSystem) messages"

definition last_system_content :: "Message list \<Rightarrow> string" where
  "last_system_content messages =
     (if system_messages messages = [] then [] else m_Content (last (system_messages messages)))"

section \<open>A canned JSON library and canned vendors for the examples\<close>

definition good_args :: string where
  "good_args = ''{\"severity\":\"CRITICAL\"}''"

definition bad_args :: string where
  "bad_args = ''not-json''"

text \<open>The JSON string \<^verbatim>\<open>"not-json"\<close>: valid JSON that is not an object.\<close>

definition bad_input :: string where
  "bad_input = ''\"not-json\"''"

definition canned_UnmarshalParams :: "string \<Rightarrow> string + gmap option" where
  "canned_UnmarshalParams s =
     (if s = good_args then Inr (Some [(''severity'', VStr ''CRITICAL'')])
      else if s = ''{}'' then Inr (Some [])
      else if s = ''null'' then Inr None
      else if s = bad_input then Inl ''cannot unmarshal string into Go value''
      else Inl ''invalid character'')"

definition rate_limited_body :: string where
  "rate_limited_body = ''{\"message\":\"rate limited\"}''"

text \<open>The body \<^verbatim>\<open>{"message":"say \"hi\""}\<close>, whose message holds two escaped quotes.\<close>

definition quoted_body :: string where
  "quoted_body =
     ''{\"message\":\"say '' @ [CHR 0x5C, CHR 0x22] @ ''hi'' @ [CHR 0x5C, CHR 0x22] @ ''\"}''"

definition canned_UnmarshalMistralError :: "string \<Rightarrow> string + mistralError" where
  "canned_UnmarshalMistralError s =
     (if s = rate_limited_body
      then Inr \<lparr>me_Object = [], me_Message = ''rate limited'', me_Type = [], me_Code = []\<rparr>
      else if s = quoted_body
      then Inr \<lparr>me_Object = [], me_Message = ''say \"hi\"'', me_Type = [], me_Code = []\<rparr>
      else Inl ''invalid character'')"

definition mistral_call :: "string \<Rightarrow> string \<Rightarrow> string \<Rightarrow> mistralToolCall" where
  "mistral_call i n a =
     \<lparr>mtc_ID = i, mtc_Type = ''function'', mtc_Function = \<lparr>mfc_Name = n, mfc_Arguments = a\<rparr>\<rparr>"

definition mistral_completion :: "mistralChoice list \<Rightarrow> mistralResponse" where
  "mistral_completion choices =
     \<lparr>mresp_ID = ''cmpl-1'', mresp_Object = ''chat.completion'', mresp_Created = 0,
      mresp_Model = ''mistral-large-latest'', mresp_Choices = choices,
      mresp_Usage = \<lparr>mu_PromptTokens = 12, mu_CompletionTokens = 5, mu_TotalTokens = 17\<rparr>\<rparr>"

definition mistral_choice :: "mistralToolCall list \<Rightarrow> mistralChoice" where
  "mistral_choice calls =
     \<lparr>ch_Index = 0,
      ch_Message = \<lparr>cm_Role = ''assistant'', cm_Content = [], cm_ToolCalls = calls\<rparr>,
      ch_FinishReason = ''tool_calls''\<rparr>"

text \<open>
  The canned library renders the one parameter mapping of the examples as its JSON text and
  every other value as \<^verbatim>\<open>{}\<close>, and knows three response bodies by
  name: one with a tool call of well-formed arguments, one with three tool calls of which
  the second has arguments that do not decode to a map, and one without choices.
\<close>

definition canned_UnmarshalMistralResponse :: "string \<Rightarrow> string + mistralResponse" where
  "canned_UnmarshalMistralResponse s =
     (if s = ''one call''
      then Inr (mistral_completion [mistral_choice [mistral_call ''t1'' ''queryFindings'' good_args] ])
      else if s = ''three calls''
      then Inr (mistral_completion
                  [mistral_choice [mistral_call ''t1'' ''queryFindings'' good_args,
                                   mistral_call ''t2'' ''x'' bad_args,
                                   mistral_call ''t3'' ''listPods'' ''{}''] ])
      else if s = ''no choices'' then Inr (mistral_completion [])
      else Inl ''unexpected end of JSON input'')"

definition tool_use :: "string \<Rightarrow> string \<Rightarrow> string \<Rightarrow> anthropicBlock" where
  "tool_use i n a = \<lparr>ab_Type = ''tool_use'', ab_Text = [], ab_ID = i, ab_Name = n, ab_Input = a\<rparr>"

definition text_block :: "string \<Rightarrow> anthropicBlock" where
  "text_block t = \<lparr>ab_Type = ''text'', ab_Text = t, ab_ID = [], ab_Name = [], ab_Input = []\<rparr>"

definition anthropic_completion :: "anthropicBlock list \<Rightarrow> apiResp" where
  "anthropic_completion blocks =
     \<lparr>ar_Content = blocks, ar_StopReason = ''tool_use'',
      ar_Usage = \<lparr>au_InputTokens = 12, au_OutputTokens = 5\<rparr>\<rparr>"

definition canned_UnmarshalApiResp :: "string \<Rightarrow> string + apiResp" where
  "canned_UnmarshalApiResp s =
     (if s = ''one call''
      then Inr (anthropic_completion
                  [text_block ''Looking.'', tool_use ''t1'' ''queryFindings'' good_args])
      else if s = ''three calls''
      then Inr (anthropic_completion
                  [tool_use ''t1'' ''queryFindings'' good_args, text_block ''and'',
                   tool_use ''t2'' ''x'' bad_input, tool_use ''t3'' ''listPods'' ''{}''])
      else Inl ''unexpected end of JSON input'')"

definition canned_json :: json_lib where
  "canned_json =
     \<lparr>Marshal = (\<lambda>v. if v = VMap [(''severity'', VStr ''CRITICAL'')] then Inr good_args
                     else Inr ''{}''),
      UnmarshalParams = canned_UnmarshalParams,
      UnmarshalMistralError = canned_UnmarshalMistralError,
      UnmarshalMistralResponse = canned_UnmarshalMistralResponse,
      UnmarshalApiResp = canned_UnmarshalApiResp\<rparr>"

text \<open>A canned HTTP client answers every request with one status and body.\<close>

definition canned_mistral :: "int \<Rightarrow> string \<Rightarrow> MistralClient" where
  "canned_mistral StatusCode body =
     \<lparr>mc_apiKey = ''key'', mc_model = ''mistral-large-latest'',
      mc_client = (\<lambda>req. Received StatusCode body)\<rparr>"

definition canned_anthropic :: "int \<Rightarrow> string \<Rightarrow> AnthropicClient" where
  "canned_anthropic StatusCode body =
     \<lparr>ac_apikey = ''key'', ac_model = ''claude-sonnet-4-20250514'',
      ac_client = (\<lambda>req. Received StatusCode body)\<rparr>"

definition openai_call :: "string \<Rightarrow> string \<Rightarrow> string \<Rightarrow> ChatCompletionMessageToolCall" where
  "openai_call i n a = \<lparr>ctc_ID = i, ctc_Function = \<lparr>cf_Name = n, cf_Arguments = a\<rparr>\<rparr>"

definition openai_completion :: "ChatCompletionChoice list \<Rightarrow> ChatCompletion" where
  "openai_completion choices =
     \<lparr>comp_Choices = choices,
      comp_Usage = \<lparr>cu_PromptTokens = 12, cu_CompletionTokens = 5\<rparr>\<rparr>"

definition openai_choice :: "ChatCompletionMessageToolCall list \<Rightarrow> ChatCompletionChoice" where
  "openai_choice calls = \<lparr>cc_Message = \<lparr>ccm_Content = [], ccm_ToolCalls = calls\<rparr>\<rparr>"

definition canned_openai :: "string + ChatCompletion \<Rightarrow> OpenAIClient" where
  "canned_openai answer = \<lparr>oc_client = (\<lambda>params. answer)\<rparr>"

definition user_hello :: Message where
  "user_hello = \<lparr>m_Role = RoleUser, m_Content = ''hello'', m_ToolCallID = [], m_ToolCalls = []\<rparr>"

definition assistant_call :: Message where
  "assistant_call =
     \<lparr>m_Role = RoleAssistant, m_Content = ''Let me check.'', m_ToolCallID = [],
      m_ToolCalls = [\<lparr>tc_ID = ''t1'', tc_Name = ''queryFindings'',
                      tc_Parameters = Some [(''severity'', VStr ''CRITICAL'')]\<rparr>]\<rparr>"

definition system_msg :: "string \<Rightarrow> Message" where
  "system_msg content =
     \<lparr>m_Role = RoleSystem, m_Content = content, m_ToolCallID = [], m_ToolCalls = []\<rparr>"

text \<open>A canned client library that refuses every call made without a credential.\<close>

definition canned_NewClient :: "environ \<Rightarrow> openai_sdk" where
  "canned_NewClient env params =
     (if Getenv env ''OPENAI_API_KEY'' = [] then Inl ''401 Unauthorized''
      else Inr (openai_completion [openai_choice [] ]))"

definition queryFindings :: Tool where
  "queryFindings =
     \<lparr>t_Name = ''queryFindings'', t_Description = ''Query findings'',
      t_Parameters = Some [(''type'', VStr ''object'')]\<rparr>"

section \<open>The loops as maps\<close>

lemmas Role_defs = RoleSystem_def RoleUser_def RoleAssistant_def RoleTool_def

lemma mistral_parseToolCalls_map:
  "mistral_parseToolCalls J tcs response =
     response\<lparr>r_ToolCalls := r_ToolCalls response
       @ map (\<lambda>tc. \<lparr>tc_ID = mtc_ID tc, tc_Name = mfc_Name (mtc_Function tc),
                    tc_Parameters = params_or_empty J (mfc_Arguments (mtc_Function tc))\<rparr>) tcs\<rparr>"
  by (induction tcs arbitrary: response) (simp_all add: params_or_empty_def)

lemma openai_parseToolCalls_map:
  "openai_parseToolCalls J tcs response =
     response\<lparr>r_ToolCalls := r_ToolCalls response
       @ map (\<lambda>tc. \<lparr>tc_ID = ctc_ID tc, tc_Name = cf_Name (ctc_Function tc),
                    tc_Parameters = params_or_empty J (cf_Arguments (ctc_Function tc))\<rparr>) tcs\<rparr>"
  by (induction tcs arbitrary: response) (simp_all add: params_or_empty_def)

lemma anthropic_parseBlocks_calls:
  "r_ToolCalls (anthropic_parseBlocks J blocks response) =
     r_ToolCalls response
       @ map (\<lambda>block. \<lparr>tc_ID = ab_ID block, tc_Name = ab_Name block,
                       tc_Parameters = params_or_empty J (ab_Input block)\<rparr>)
           (filter (\<lambda>block. ab_Type block = ''tool_use'') blocks)"
  by (induction blocks arbitrary: response) (simp_all add: params_or_empty_def)

lemma mistral_Chat_receives:
  "mistral_receives J c messages tools resp \<Longrightarrow>
     mistral_Chat J c messages tools = Ok (mistral_parseResponse J resp)"
  by (auto simp: mistral_receives_def mistral_Chat_def split: sum.splits http_outcome.splits)

lemma anthropic_Chat_receives:
  "anthropic_receives J c messages tools resp \<Longrightarrow>
     anthropic_Chat J c messages tools =
       Ok (anthropic_parseBlocks J (ar_Content resp)
             \<lparr>r_Content = [], r_ToolCalls = [],
              r_Usage = \<lparr>InputTokens = au_InputTokens (ar_Usage resp),
                         OutputTokens = au_OutputTokens (ar_Usage resp)\<rparr>\<rparr>)"
  by (auto simp: anthropic_receives_def anthropic_Chat_def anthropic_parseResponseBody_def
           split: sum.splits http_outcome.splits)

lemma mistral_returned_calls:
  "mistral_receives J c messages tools resp \<Longrightarrow>
     returned_calls (mistral_Chat J c messages tools) =
       Some (map (\<lambda>tc. \<lparr>tc_ID = mtc_ID tc, tc_Name = mfc_Name (mtc_Function tc),
                        tc_Parameters = params_or_empty J (mfc_Arguments (mtc_Function tc))\<rparr>)
               (mistral_vendor_calls resp))"
  by (simp add: mistral_Chat_receives returned_calls_def mistral_parseResponse_def
        mistral_vendor_calls_def mistral_parseToolCalls_map zero_Response_def split: list.splits)

lemma anthropic_returned_calls:
  "anthropic_receives J c messages tools resp \<Longrightarrow>
     returned_calls (anthropic_Chat J c messages tools) =
       Some (map (\<lambda>block. \<lparr>tc_ID = ab_ID block, tc_Name = ab_Name block,
                           tc_Parameters = params_or_empty J (ab_Input block)\<rparr>)
               (anthropic_vendor_calls resp))"
  by (simp add: anthropic_Chat_receives returned_calls_def anthropic_vendor_calls_def
        anthropic_parseBlocks_calls)

lemma openai_returned_calls:
  "openai_receives J c messages tools resp \<Longrightarrow> comp_Choices resp = choice # rest \<Longrightarrow>
     returned_calls (openai_Chat J c messages tools) =
       Some (map (\<lambda>tc. \<lparr>tc_ID = ctc_ID tc, tc_Name = cf_Name (ctc_Function tc),
                        tc_Parameters = params_or_empty J (cf_Arguments (ctc_Function tc))\<rparr>)
               (ccm_ToolCalls (cc_Message choice)))"
  by (simp add: openai_receives_def openai_Chat_def returned_calls_def openai_parseToolCalls_map)

lemma decoded_zip:
  "map (UnmarshalParams J) (map f xs) = map Inr ps \<Longrightarrow>
     map (\<lambda>x. g x (params_or_empty J (f x))) xs = map (\<lambda>(x, p). g x p) (zip xs ps)"
proof (induction xs arbitrary: ps)
  case Nil
  then show ?case by simp
next
  case (Cons x xs)
  then obtain p ps' where ps: "ps = p # ps'"
    by (cases ps) auto
  with Cons.prems have "UnmarshalParams J (f x) = Inr p"
    and "map (UnmarshalParams J) (map f xs) = map Inr ps'"
    by simp_all
  with Cons.IH [of ps'] ps show ?case
    by (simp add: params_or_empty_def)
qed

lemma undecoded_between:
  assumes "map (UnmarshalParams J) (map f pre) = map Inr ps"
    and "UnmarshalParams J (f x) = Inl err"
    and "map (UnmarshalParams J) (map f post) = map Inr qs"
  shows "map (\<lambda>x. g x (params_or_empty J (f x))) (pre @ x # post) =
           map (\<lambda>(x, p). g x p) (zip pre ps) @ g x (Some []) # map (\<lambda>(x, p). g x p) (zip post qs)"
proof -
  have "map (\<lambda>x. g x (params_or_empty J (f x))) pre = map (\<lambda>(x, p). g x p) (zip pre ps)"
    using assms(1) by (rule decoded_zip)
  moreover have "map (\<lambda>x. g x (params_or_empty J (f x))) post = map (\<lambda>(x, p). g x p) (zip post qs)"
    using assms(3) by (rule decoded_zip)
  moreover have "params_or_empty J (f x) = Some []"
    using assms(2) by (simp add: params_or_empty_def)
  ultimately show ?thesis by simp
qed

lemma returned_calls_no_error:
  "returned_calls res = Some calls \<Longrightarrow> returned_error res = None"
  by (cases res) (simp_all add: returned_calls_def returned_error_def)

lemma mistral_convertTools_loop_map:
  "mistral_convertTools_loop tools result =
     result @ map (\<lambda>tool. \<lparr>mt_Type = ''function'',
                             mt_Function = \<lparr>mf_Name = t_Name tool,
                                             mf_Description = t_Description tool,
                                             mf_Parameters = t_Parameters tool\<rparr>\<rparr>) tools"
  by (induction tools arbitrary: result) simp_all

lemma openai_tools_loop_map:
  "openai_tools_loop tools openaiTools =
     openaiTools @ map (\<lambda>tool. \<lparr>tp_Type = ''function'',
                                  tp_Function = \<lparr>fd_Name = t_Name tool,
                                                  fd_Description = Some (t_Description tool),
                                                  fd_Parameters = t_Parameters tool\<rparr>\<rparr>) tools"
  by (induction tools arbitrary: openaiTools) simp_all

lemma openai_appendToolCalls_map:
  "openai_appendToolCalls J tcs toolCalls =
     toolCalls @ map (\<lambda>tc. \<lparr>tcp_ID = tc_ID tc, tcp_Type = ''function'',
                              tcp_Function =
                                \<lparr>fp_Name = tc_Name tc,
                                 fp_Arguments =
                                   (case Marshal J (map_value (tc_Parameters tc)) of
                                      Inl _ \<Rightarrow> [] | Inr b \<Rightarrow> b)\<rparr>\<rparr>) tcs"
  by (induction tcs arbitrary: toolCalls) simp_all

lemma anthropic_appendToolUse_map:
  "anthropic_appendToolUse tcs contentBlocks =
     contentBlocks @ map (\<lambda>tc. [(''type'', VStr ''tool_use''), (''id'', VStr (tc_ID tc)),
                                 (''name'', VStr (tc_Name tc)),
                                 (''input'', map_value (tc_Parameters tc))]) tcs"
  by (induction tcs arbitrary: contentBlocks) simp_all

lemma mistral_convertMessages_loop_map:
  "mistral_convertMessages_loop J messages result =
     result @ map (mistral_convertMessage J) messages"
  by (induction messages arbitrary: result) simp_all

lemma openai_appendMessage_append:
  "openai_appendMessage J msg openaiMessages = openaiMessages @ openai_appendMessage J msg []"
  by (simp add: openai_appendMessage_def)

lemma openai_messages_loop_concat:
  "openai_messages_loop J messages openaiMessages =
     openaiMessages @ concat (map (\<lambda>msg. openai_appendMessage J msg []) messages)"
proof (induction messages arbitrary: openaiMessages)
  case Nil
  show ?case by simp
next
  case (Cons msg msgs)
  show ?case
    using openai_appendMessage_append [of J msg openaiMessages]
    by (simp add: Cons.IH)
qed

lemma anthropic_buildRequest_loop_eq:
  "anthropic_buildRequest_loop messages (system, convMessages) =
     (last (system # map m_Content (system_messages messages)),
      convMessages @ map anthropic_message (conversation_messages messages))"
  by (induction messages arbitrary: system convMessages)
     (simp_all add: system_messages_def conversation_messages_def)

lemma last_system_content_eq:
  "last ([] # map m_Content (system_messages messages)) = last_system_content messages"
  by (simp add: last_system_content_def last_map)

lemma anthropic_message_role:
  "m_Role msg \<noteq> RoleSystem \<Longrightarrow> map_of (anthropic_message msg) ''role'' \<noteq> Some (VStr ''system'')"
  by (simp add: anthropic_message_def update_conv' Let_def Role_defs)

lemma sublist_after: "sublist xs (a @ b @ c @ xs)"
  unfolding sublist_def by (intro exI [of _ "a @ b @ c"] exI [of _ "[]"]) simp

lemma mistral_Chat_no_panic: "mistral_Chat J c messages tools \<noteq> Panic p"
  by (simp add: mistral_Chat_def split: sum.splits http_outcome.splits)

lemma anthropic_Chat_no_panic: "anthropic_Chat J c messages tools \<noteq> Panic p"
  by (simp add: anthropic_Chat_def anthropic_parseResponseBody_def
        split: sum.splits http_outcome.splits)

section \<open>Properties of the adapters\<close>

text \<open>
  C1. Round trip of tool calls. Whatever Message and Tool sequences are encoded into the
  request, when the exchange goes through and the vendor response is well formed (the
  argument payload of each of its tool calls decodes, to the mappings \<open>ps\<close> in order; for
  the OpenAI-style adapter the response has a first choice), \<^verbatim>\<open>Chat\<close> returns a Response whose
  tool calls are those of the vendor response in order, each with the id, the name and the
  decoded mapping of its vendor tool call. This holds for the Mistral-style, the
  OpenAI-style and the Anthropic-style adapter.
\<close>

theorem tool_calls_round_trip:
  "(mistral_receives J mc messages tools mresp
      \<and> map (UnmarshalParams J)
            (map (\<lambda>tc. mfc_Arguments (mtc_Function tc)) (mistral_vendor_calls mresp))
          = map Inr ps
    \<longrightarrow> returned_calls (mistral_Chat J mc messages tools) =
          Some (map (\<lambda>(tc, p). \<lparr>tc_ID = mtc_ID tc, tc_Name = mfc_Name (mtc_Function tc),
                                 tc_Parameters = p\<rparr>)
                  (zip (mistral_vendor_calls mresp) ps)))
   \<and> (openai_receives J oc messages tools oresp \<and> comp_Choices oresp = choice # rest
      \<and> map (UnmarshalParams J)
            (map (\<lambda>tc. cf_Arguments (ctc_Function tc)) (ccm_ToolCalls (cc_Message choice)))
          = map Inr qs
    \<longrightarrow> returned_calls (openai_Chat J oc messages tools) =
          Some (map (\<lambda>(tc, p). \<lparr>tc_ID = ctc_ID tc, tc_Name = cf_Name (ctc_Function tc),
                                 tc_Parameters = p\<rparr>)
                  (zip (ccm_ToolCalls (cc_Message choice)) qs)))
   \<and> (anthropic_receives J ac messages tools aresp
      \<and> map (UnmarshalParams J) (map ab_Input (anthropic_vendor_calls aresp)) = map Inr rs
    \<longrightarrow> returned_calls (anthropic_Chat J ac messages tools) =
          Some (map (\<lambda>(block, p). \<lparr>tc_ID = ab_ID block, tc_Name = ab_Name block,
                                    tc_Parameters = p\<rparr>)
                  (zip (anthropic_vendor_calls aresp) rs)))"
proof (intro conjI impI)
  assume "mistral_receives J mc messages tools mresp
      \<and> map (UnmarshalParams J)
            (map (\<lambda>tc. mfc_Arguments (mtc_Function tc)) (mistral_vendor_calls mresp))
          = map Inr ps"
  then have recv: "mistral_receives J mc messages tools mresp"
    and dec: "map (UnmarshalParams J)
            (map (\<lambda>tc. mfc_Arguments (mtc_Function tc)) (mistral_vendor_calls mresp))
          = map Inr ps"
    by simp_all
  show "returned_calls (mistral_Chat J mc messages tools) =
          Some (map (\<lambda>(tc, p). \<lparr>tc_ID = mtc_ID tc, tc_Name = mfc_Name (mtc_Function tc),
                                 tc_Parameters = p\<rparr>)
                  (zip (mistral_vendor_calls mresp) ps))"
    unfolding mistral_returned_calls [OF recv]
    using decoded_zip [OF dec,
        of "\<lambda>tc p. \<lparr>tc_ID = mtc_ID tc, tc_Name = mfc_Name (mtc_Function tc), tc_Parameters = p\<rparr>"]
    by simp
next
  assume "openai_receives J oc messages tools oresp \<and> comp_Choices oresp = choice # rest
      \<and> map (UnmarshalParams J)
            (map (\<lambda>tc. cf_Arguments (ctc_Function tc)) (ccm_ToolCalls (cc_Message choice)))
          = map Inr qs"
  then have recv: "openai_receives J oc messages tools oresp"
    and first: "comp_Choices oresp = choice # rest"
    and dec: "map (UnmarshalParams J)
            (map (\<lambda>tc. cf_Arguments (ctc_Function tc)) (ccm_ToolCalls (cc_Message choice)))
          = map Inr qs"
    by simp_all
  show "returned_calls (openai_Chat J oc messages tools) =
          Some (map (\<lambda>(tc, p). \<lparr>tc_ID = ctc_ID tc, tc_Name = cf_Name (ctc_Function tc),
                                 tc_Parameters = p\<rparr>)
                  (zip (ccm_ToolCalls (cc_Message choice)) qs))"
    unfolding openai_returned_calls [OF recv first]
    using decoded_zip [OF dec,
        of "\<lambda>tc p. \<lparr>tc_ID = ctc_ID tc, tc_Name = cf_Name (ctc_Function tc), tc_Parameters = p\<rparr>"]
    by simp
next
  assume "anthropic_receives J ac messages tools aresp
      \<and> map (UnmarshalParams J) (map ab_Input (anthropic_vendor_calls aresp)) = map Inr rs"
  then have recv: "anthropic_receives J ac messages tools aresp"
    and dec: "map (UnmarshalParams J) (map ab_Input (anthropic_vendor_calls aresp)) = map Inr rs"
    by simp_all
  show "returned_calls (anthropic_Chat J ac messages tools) =
          Some (map (\<lambda>(block, p). \<lparr>tc_ID = ab_ID block, tc_Name = ab_Name block,
                                    tc_Parameters = p\<rparr>)
                  (zip (anthropic_vendor_calls aresp) rs))"
    unfolding anthropic_returned_calls [OF recv]
    using decoded_zip [OF dec,
        of "\<lambda>block p. \<lparr>tc_ID = ab_ID block, tc_Name = ab_Name block, tc_Parameters = p\<rparr>"]
    by simp
qed

theorem tool_calls_round_trip_witness:
  "mistral_receives canned_json (canned_mistral 200 ''one call'') [user_hello] [queryFindings]
     (mistral_completion [mistral_choice [mistral_call ''t1'' ''queryFindings'' good_args] ])
   \<and> returned_calls
       (mistral_Chat canned_json (canned_mistral 200 ''one call'') [user_hello] [queryFindings])
     = Some [\<lparr>tc_ID = ''t1'', tc_Name = ''queryFindings'',
              tc_Parameters = Some [(''severity'', VStr ''CRITICAL'')]\<rparr>]
   \<and> openai_receives canned_json
       (canned_openai
          (Inr (openai_completion [openai_choice [openai_call ''t1'' ''queryFindings'' good_args] ])))
       [user_hello] [queryFindings]
       (openai_completion [openai_choice [openai_call ''t1'' ''queryFindings'' good_args] ])
   \<and> returned_calls
       (openai_Chat canned_json
          (canned_openai
             (Inr (openai_completion
                     [openai_choice [openai_call ''t1'' ''queryFindings'' good_args] ])))
          [user_hello] [queryFindings])
     = Some [\<lparr>tc_ID = ''t1'', tc_Name = ''queryFindings'',
              tc_Parameters = Some [(''severity'', VStr ''CRITICAL'')]\<rparr>]
   \<and> anthropic_receives canned_json (canned_anthropic 200 ''one call'') [user_hello]
       [queryFindings]
       (anthropic_completion
          [text_block ''Looking.'', tool_use ''t1'' ''queryFindings'' good_args])
   \<and> returned_calls
       (anthropic_Chat canned_json (canned_anthropic 200 ''one call'') [user_hello]
          [queryFindings])
     = Some [\<lparr>tc_ID = ''t1'', tc_Name = ''queryFindings'',
              tc_Parameters = Some [(''severity'', VStr ''CRITICAL'')]\<rparr>]"
proof -
  let ?mresp = "mistral_completion [mistral_choice [mistral_call ''t1'' ''queryFindings'' good_args] ]"
  let ?ochoice = "openai_choice [openai_call ''t1'' ''queryFindings'' good_args]"
  let ?aresp = "anthropic_completion
                  [text_block ''Looking.'', tool_use ''t1'' ''queryFindings'' good_args]"
  let ?ps = "[Some [(''severity'', VStr ''CRITICAL'')] ]"
  have m: "mistral_receives canned_json (canned_mistral 200 ''one call'') [user_hello]
             [queryFindings] ?mresp"
    by (simp add: mistral_receives_def canned_json_def canned_mistral_def StatusOK_def
          canned_UnmarshalMistralResponse_def)
  have mp: "map (UnmarshalParams canned_json)
              (map (\<lambda>tc. mfc_Arguments (mtc_Function tc)) (mistral_vendor_calls ?mresp))
            = map Inr ?ps"
    by (simp add: mistral_vendor_calls_def mistral_completion_def mistral_choice_def
          mistral_call_def canned_json_def canned_UnmarshalParams_def)
  have o: "openai_receives canned_json (canned_openai (Inr (openai_completion [?ochoice])))
             [user_hello] [queryFindings] (openai_completion [?ochoice])"
    by (simp add: openai_receives_def canned_openai_def)
  have oc: "comp_Choices (openai_completion [?ochoice]) = ?ochoice # []"
    by (simp add: openai_completion_def)
  have op: "map (UnmarshalParams canned_json)
              (map (\<lambda>tc. cf_Arguments (ctc_Function tc)) (ccm_ToolCalls (cc_Message ?ochoice)))
            = map Inr ?ps"
    by (simp add: openai_choice_def openai_call_def canned_json_def canned_UnmarshalParams_def)
  have a: "anthropic_receives canned_json (canned_anthropic 200 ''one call'') [user_hello]
             [queryFindings] ?aresp"
    by (simp add: anthropic_receives_def canned_json_def canned_anthropic_def StatusOK_def
          canned_UnmarshalApiResp_def)
  have ap: "map (UnmarshalParams canned_json) (map ab_Input (anthropic_vendor_calls ?aresp))
            = map Inr ?ps"
    by (simp add: anthropic_vendor_calls_def anthropic_completion_def text_block_def
          tool_use_def canned_json_def canned_UnmarshalParams_def)
  from m mp o oc op a ap
    tool_calls_round_trip [of canned_json "canned_mistral 200 ''one call''" "[user_hello]"
      "[queryFindings]" ?mresp ?ps "canned_openai (Inr (openai_completion [?ochoice]))"
      "openai_completion [?ochoice]" ?ochoice "[]" ?ps "canned_anthropic 200 ''one call''"
      ?aresp ?ps]
  show ?thesis
    by (simp add: mistral_vendor_calls_def mistral_completion_def mistral_choice_def
          mistral_call_def openai_choice_def openai_call_def anthropic_vendor_calls_def
          anthropic_completion_def text_block_def tool_use_def)
qed

text \<open>
  C9. In the Mistral-style adapter a decoded vendor response with no choices gives the zero
  Response: empty content, no tool calls and a Usage of zero tokens, whatever token counts
  the vendor response reports.
\<close>

theorem mistral_parseResponse_no_choices:
  "mresp_Choices resp = [] \<Longrightarrow>
     mistral_parseResponse J resp =
       \<lparr>r_Content = [], r_ToolCalls = [], r_Usage = \<lparr>InputTokens = 0, OutputTokens = 0\<rparr>\<rparr>"
  by (simp add: mistral_parseResponse_def zero_Response_def)

theorem mistral_parseResponse_no_choices_witness:
  "mresp_Choices (mistral_completion []) = []
   \<and> mu_PromptTokens (mresp_Usage (mistral_completion [])) = 12
   \<and> mu_CompletionTokens (mresp_Usage (mistral_completion [])) = 5
   \<and> mistral_parseResponse canned_json (mistral_completion []) =
       \<lparr>r_Content = [], r_ToolCalls = [], r_Usage = \<lparr>InputTokens = 0, OutputTokens = 0\<rparr>\<rparr>"
  using mistral_parseResponse_no_choices [of "mistral_completion []" canned_json]
  by (simp add: mistral_completion_def)

text \<open>
  C2. When the argument payload of one tool call of the vendor response does not decode,
  and the exchange is well formed otherwise (the payloads of the tool calls before it and
  after it decode, to the mappings \<open>ps\<close> and \<open>qs\<close>), \<^verbatim>\<open>Chat\<close> returns no error: it
  returns a Response with all the tool calls of the vendor response in order, where the
  undecodable one has its id, its name and the empty parameter mapping, and every other one
  has its id, its name and its decoded mapping. This holds for the Mistral-style, the
  OpenAI-style and the Anthropic-style adapter.
\<close>

theorem bad_arguments_recovered:
  "(mistral_receives J mc messages tools mresp
      \<and> mistral_vendor_calls mresp = pre @ tc # post
      \<and> map (UnmarshalParams J) (map (\<lambda>tc. mfc_Arguments (mtc_Function tc)) pre) = map Inr ps
      \<and> UnmarshalParams J (mfc_Arguments (mtc_Function tc)) = Inl err
      \<and> map (UnmarshalParams J) (map (\<lambda>tc. mfc_Arguments (mtc_Function tc)) post) = map Inr qs
    \<longrightarrow> returned_error (mistral_Chat J mc messages tools) = None
        \<and> returned_calls (mistral_Chat J mc messages tools) =
            Some (map (\<lambda>(tc, p). \<lparr>tc_ID = mtc_ID tc, tc_Name = mfc_Name (mtc_Function tc),
                                   tc_Parameters = p\<rparr>) (zip pre ps)
                  @ \<lparr>tc_ID = mtc_ID tc, tc_Name = mfc_Name (mtc_Function tc),
                     tc_Parameters = Some []\<rparr>
                  # map (\<lambda>(tc, p). \<lparr>tc_ID = mtc_ID tc, tc_Name = mfc_Name (mtc_Function tc),
                                     tc_Parameters = p\<rparr>) (zip post qs)))
   \<and> (openai_receives J oc messages tools oresp \<and> comp_Choices oresp = choice # rest
      \<and> ccm_ToolCalls (cc_Message choice) = opre @ otc # opost
      \<and> map (UnmarshalParams J) (map (\<lambda>tc. cf_Arguments (ctc_Function tc)) opre) = map Inr ops
      \<and> UnmarshalParams J (cf_Arguments (ctc_Function otc)) = Inl oerr
      \<and> map (UnmarshalParams J) (map (\<lambda>tc. cf_Arguments (ctc_Function tc)) opost) = map Inr oqs
    \<longrightarrow> returned_error (openai_Chat J oc messages tools) = None
        \<and> returned_calls (openai_Chat J oc messages tools) =
            Some (map (\<lambda>(tc, p). \<lparr>tc_ID = ctc_ID tc, tc_Name = cf_Name (ctc_Function tc),
                                   tc_Parameters = p\<rparr>) (zip opre ops)
                  @ \<lparr>tc_ID = ctc_ID otc, tc_Name = cf_Name (ctc_Function otc),
                     tc_Parameters = Some []\<rparr>
                  # map (\<lambda>(tc, p). \<lparr>tc_ID = ctc_ID tc, tc_Name = cf_Name (ctc_Function tc),
                                     tc_Parameters = p\<rparr>) (zip opost oqs)))
   \<and> (anthropic_receives J ac messages tools aresp
      \<and> anthropic_vendor_calls aresp = apre @ block # apost
      \<and> map (UnmarshalParams J) (map ab_Input apre) = map Inr aps
      \<and> UnmarshalParams J (ab_Input block) = Inl aerr
      \<and> map (UnmarshalParams J) (map ab_Input apost) = map Inr aqs
    \<longrightarrow> returned_error (anthropic_Chat J ac messages tools) = None
        \<and> returned_calls (anthropic_Chat J ac messages tools) =
            Some (map (\<lambda>(block, p). \<lparr>tc_ID = ab_ID block, tc_Name = ab_Name block,
                                      tc_Parameters = p\<rparr>) (zip apre aps)
                  @ \<lparr>tc_ID = ab_ID block, tc_Name = ab_Name block, tc_Parameters = Some []\<rparr>
                  # map (\<lambda>(block, p). \<lparr>tc_ID = ab_ID block, tc_Name = ab_Name block,
                                        tc_Parameters = p\<rparr>) (zip apost aqs)))"
proof (intro conjI impI)
  assume "mistral_receives J mc messages tools mresp
      \<and> mistral_vendor_calls mresp = pre @ tc # post
      \<and> map (UnmarshalParams J) (map (\<lambda>tc. mfc_Arguments (mtc_Function tc)) pre) = map Inr ps
      \<and> UnmarshalParams J (mfc_Arguments (mtc_Function tc)) = Inl err
      \<and> map (UnmarshalParams J) (map (\<lambda>tc. mfc_Arguments (mtc_Function tc)) post) = map Inr qs"
  then have recv: "mistral_receives J mc messages tools mresp"
    and split: "mistral_vendor_calls mresp = pre @ tc # post"
    and before: "map (UnmarshalParams J) (map (\<lambda>tc. mfc_Arguments (mtc_Function tc)) pre)
                   = map Inr ps"
    and bad: "UnmarshalParams J (mfc_Arguments (mtc_Function tc)) = Inl err"
    and after: "map (UnmarshalParams J) (map (\<lambda>tc. mfc_Arguments (mtc_Function tc)) post)
                  = map Inr qs"
    by simp_all
  note calls = mistral_returned_calls [OF recv]
  show "returned_error (mistral_Chat J mc messages tools) = None"
    using calls by (rule returned_calls_no_error)
  show "returned_calls (mistral_Chat J mc messages tools) =
            Some (map (\<lambda>(tc, p). \<lparr>tc_ID = mtc_ID tc, tc_Name = mfc_Name (mtc_Function tc),
                                   tc_Parameters = p\<rparr>) (zip pre ps)
                  @ \<lparr>tc_ID = mtc_ID tc, tc_Name = mfc_Name (mtc_Function tc),
                     tc_Parameters = Some []\<rparr>
                  # map (\<lambda>(tc, p). \<lparr>tc_ID = mtc_ID tc, tc_Name = mfc_Name (mtc_Function tc),
                                     tc_Parameters = p\<rparr>) (zip post qs))"
    unfolding calls split
    using undecoded_between [OF before bad after,
        of "\<lambda>tc p. \<lparr>tc_ID = mtc_ID tc, tc_Name = mfc_Name (mtc_Function tc), tc_Parameters = p\<rparr>"]
    by simp
next
  assume "openai_receives J oc messages tools oresp \<and> comp_Choices oresp = choice # rest
      \<and> ccm_ToolCalls (cc_Message choice) = opre @ otc # opost
      \<and> map (UnmarshalParams J) (map (\<lambda>tc. cf_Arguments (ctc_Function tc)) opre) = map Inr ops
      \<and> UnmarshalParams J (cf_Arguments (ctc_Function otc)) = Inl oerr
      \<and> map (UnmarshalParams J) (map (\<lambda>tc. cf_Arguments (ctc_Function tc)) opost) = map Inr oqs"
  then have recv: "openai_receives J oc messages tools oresp"
    and first: "comp_Choices oresp = choice # rest"
    and split: "ccm_ToolCalls (cc_Message choice) = opre @ otc # opost"
    and before: "map (UnmarshalParams J) (map (\<lambda>tc. cf_Arguments (ctc_Function tc)) opre)
                   = map Inr ops"
    and bad: "UnmarshalParams J (cf_Arguments (ctc_Function otc)) = Inl oerr"
    and after: "map (UnmarshalParams J) (map (\<lambda>tc. cf_Arguments (ctc_Function tc)) opost)
                  = map Inr oqs"
    by simp_all
  note calls = openai_returned_calls [OF recv first]
  show "returned_error (openai_Chat J oc messages tools) = None"
    using calls by (rule returned_calls_no_error)
  show "returned_calls (openai_Chat J oc messages tools) =
            Some (map (\<lambda>(tc, p). \<lparr>tc_ID = ctc_ID tc, tc_Name = cf_Name (ctc_Function tc),
                                   tc_Parameters = p\<rparr>) (zip opre ops)
                  @ \<lparr>tc_ID = ctc_ID otc, tc_Name = cf_Name (ctc_Function otc),
                     tc_Parameters = Some []\<rparr>
                  # map (\<lambda>(tc, p). \<lparr>tc_ID = ctc_ID tc, tc_Name = cf_Name (ctc_Function tc),
                                     tc_Parameters = p\<rparr>) (zip opost oqs))"
    unfolding calls split
    using undecoded_between [OF before bad after,
        of "\<lambda>tc p. \<lparr>tc_ID = ctc_ID tc, tc_Name = cf_Name (ctc_Function tc), tc_Parameters = p\<rparr>"]
    by simp
next
  assume "anthropic_receives J ac messages tools aresp
      \<and> anthropic_vendor_calls aresp = apre @ block # apost
      \<and> map (UnmarshalParams J) (map ab_Input apre) = map Inr aps
      \<and> UnmarshalParams J (ab_Input block) = Inl aerr
      \<and> map (UnmarshalParams J) (map ab_Input apost) = map Inr aqs"
  then have recv: "anthropic_receives J ac messages tools aresp"
    and split: "anthropic_vendor_calls aresp = apre @ block # apost"
    and before: "map (UnmarshalParams J) (map ab_Input apre) = map Inr aps"
    and bad: "UnmarshalParams J (ab_Input block) = Inl aerr"
    and after: "map (UnmarshalParams J) (map ab_Input apost) = map Inr aqs"
    by simp_all
  note calls = anthropic_returned_calls [OF recv]
  show "returned_error (anthropic_Chat J ac messages tools) = None"
    using calls by (rule returned_calls_no_error)
  show "returned_calls (anthropic_Chat J ac messages tools) =
            Some (map (\<lambda>(block, p). \<lparr>tc_ID = ab_ID block, tc_Name = ab_Name block,
                                      tc_Parameters = p\<rparr>) (zip apre aps)
                  @ \<lparr>tc_ID = ab_ID block, tc_Name = ab_Name block, tc_Parameters = Some []\<rparr>
                  # map (\<lambda>(block, p). \<lparr>tc_ID = ab_ID block, tc_Name = ab_Name block,
                                        tc_Parameters = p\<rparr>) (zip apost aqs))"
    unfolding calls split
    using undecoded_between [OF before bad after,
        of "\<lambda>block p. \<lparr>tc_ID = ab_ID block, tc_Name = ab_Name block, tc_Parameters = p\<rparr>"]
    by simp
qed

theorem bad_arguments_recovered_witness:
  "mistral_receives canned_json (canned_mistral 200 ''three calls'') [user_hello]
     [queryFindings]
     (mistral_completion
        [mistral_choice [mistral_call ''t1'' ''queryFindings'' good_args,
                         mistral_call ''t2'' ''x'' bad_args,
                         mistral_call ''t3'' ''listPods'' ''{}''] ])
   \<and> UnmarshalParams canned_json bad_args = Inl ''invalid character''
   \<and> returned_error
       (mistral_Chat canned_json (canned_mistral 200 ''three calls'') [user_hello]
          [queryFindings]) = None
   \<and> returned_calls
       (mistral_Chat canned_json (canned_mistral 200 ''three calls'') [user_hello]
          [queryFindings])
     = Some [\<lparr>tc_ID = ''t1'', tc_Name = ''queryFindings'',
               tc_Parameters = Some [(''severity'', VStr ''CRITICAL'')]\<rparr>,
             \<lparr>tc_ID = ''t2'', tc_Name = ''x'', tc_Parameters = Some []\<rparr>,
             \<lparr>tc_ID = ''t3'', tc_Name = ''listPods'', tc_Parameters = Some []\<rparr>]
   \<and> openai_receives canned_json
       (canned_openai
          (Inr (openai_completion
                  [openai_choice [openai_call ''t1'' ''queryFindings'' good_args,
                                  openai_call ''t2'' ''x'' bad_args,
                                  openai_call ''t3'' ''listPods'' ''{}''] ])))
       [user_hello] [queryFindings]
       (openai_completion
          [openai_choice [openai_call ''t1'' ''queryFindings'' good_args,
                          openai_call ''t2'' ''x'' bad_args,
                          openai_call ''t3'' ''listPods'' ''{}''] ])
   \<and> returned_error
       (openai_Chat canned_json
          (canned_openai
             (Inr (openai_completion
                     [openai_choice [openai_call ''t1'' ''queryFindings'' good_args,
                                     openai_call ''t2'' ''x'' bad_args,
                                     openai_call ''t3'' ''listPods'' ''{}''] ])))
          [user_hello] [queryFindings]) = None
   \<and> returned_calls
       (openai_Chat canned_json
          (canned_openai
             (Inr (openai_completion
                     [openai_choice [openai_call ''t1'' ''queryFindings'' good_args,
                                     openai_call ''t2'' ''x'' bad_args,
                                     openai_call ''t3'' ''listPods'' ''{}''] ])))
          [user_hello] [queryFindings])
     = Some [\<lparr>tc_ID = ''t1'', tc_Name = ''queryFindings'',
               tc_Parameters = Some [(''severity'', VStr ''CRITICAL'')]\<rparr>,
             \<lparr>tc_ID = ''t2'', tc_Name = ''x'', tc_Parameters = Some []\<rparr>,
             \<lparr>tc_ID = ''t3'', tc_Name = ''listPods'', tc_Parameters = Some []\<rparr>]
   \<and> anthropic_receives canned_json (canned_anthropic 200 ''three calls'') [user_hello]
       [queryFindings]
       (anthropic_completion
          [tool_use ''t1'' ''queryFindings'' good_args, text_block ''and'',
           tool_use ''t2'' ''x'' bad_input, tool_use ''t3'' ''listPods'' ''{}''])
   \<and> UnmarshalParams canned_json bad_input = Inl ''cannot unmarshal string into Go value''
   \<and> returned_error
       (anthropic_Chat canned_json (canned_anthropic 200 ''three calls'') [user_hello]
          [queryFindings]) = None
   \<and> returned_calls
       (anthropic_Chat canned_json (canned_anthropic 200 ''three calls'') [user_hello]
          [queryFindings])
     = Some [\<lparr>tc_ID = ''t1'', tc_Name = ''queryFindings'',
               tc_Parameters = Some [(''severity'', VStr ''CRITICAL'')]\<rparr>,
             \<lparr>tc_ID = ''t2'', tc_Name = ''x'', tc_Parameters = Some []\<rparr>,
             \<lparr>tc_ID = ''t3'', tc_Name = ''listPods'', tc_Parameters = Some []\<rparr>]"
proof -
  let ?m1 = "mistral_call ''t1'' ''queryFindings'' good_args"
  let ?m2 = "mistral_call ''t2'' ''x'' bad_args"
  let ?m3 = "mistral_call ''t3'' ''listPods'' ''{}''"
  let ?mresp = "mistral_completion [mistral_choice [?m1, ?m2, ?m3] ]"
  let ?o1 = "openai_call ''t1'' ''queryFindings'' good_args"
  let ?o2 = "openai_call ''t2'' ''x'' bad_args"
  let ?o3 = "openai_call ''t3'' ''listPods'' ''{}''"
  let ?ochoice = "openai_choice [?o1, ?o2, ?o3]"
  let ?a1 = "tool_use ''t1'' ''queryFindings'' good_args"
  let ?a2 = "tool_use ''t2'' ''x'' bad_input"
  let ?a3 = "tool_use ''t3'' ''listPods'' ''{}''"
  let ?aresp = "anthropic_completion [?a1, text_block ''and'', ?a2, ?a3]"
  let ?ps = "[Some [(''severity'', VStr ''CRITICAL'')] ]"
  let ?qs = "[Some [] ] :: gmap option list"
  have good: "UnmarshalParams canned_json good_args = Inr (Some [(''severity'', VStr ''CRITICAL'')])"
    by (simp add: canned_json_def canned_UnmarshalParams_def)
  have empty: "UnmarshalParams canned_json ''{}'' = Inr (Some [])"
    by (simp add: canned_json_def canned_UnmarshalParams_def good_args_def)
  have bad: "UnmarshalParams canned_json bad_args = Inl ''invalid character''"
    by (simp add: canned_json_def canned_UnmarshalParams_def bad_args_def good_args_def
          bad_input_def)
  have bad': "UnmarshalParams canned_json bad_input = Inl ''cannot unmarshal string into Go value''"
    by (simp add: canned_json_def canned_UnmarshalParams_def bad_input_def good_args_def)
  have m: "mistral_receives canned_json (canned_mistral 200 ''three calls'') [user_hello]
             [queryFindings] ?mresp"
    by (simp add: mistral_receives_def canned_json_def canned_mistral_def StatusOK_def
          canned_UnmarshalMistralResponse_def)
  have ms: "mistral_vendor_calls ?mresp = [?m1] @ ?m2 # [?m3]"
    by (simp add: mistral_vendor_calls_def mistral_completion_def mistral_choice_def)
  have mp: "map (UnmarshalParams canned_json) (map (\<lambda>tc. mfc_Arguments (mtc_Function tc)) [?m1])
              = map Inr ?ps"
    and mb: "UnmarshalParams canned_json (mfc_Arguments (mtc_Function ?m2))
              = Inl ''invalid character''"
    and mq: "map (UnmarshalParams canned_json) (map (\<lambda>tc. mfc_Arguments (mtc_Function tc)) [?m3])
              = map Inr ?qs"
    using good bad empty by (simp_all add: mistral_call_def)
  have o: "openai_receives canned_json (canned_openai (Inr (openai_completion [?ochoice])))
             [user_hello] [queryFindings] (openai_completion [?ochoice])"
    by (simp add: openai_receives_def canned_openai_def)
  have oc: "comp_Choices (openai_completion [?ochoice]) = ?ochoice # []"
    by (simp add: openai_completion_def)
  have os: "ccm_ToolCalls (cc_Message ?ochoice) = [?o1] @ ?o2 # [?o3]"
    by (simp add: openai_choice_def)
  have op: "map (UnmarshalParams canned_json) (map (\<lambda>tc. cf_Arguments (ctc_Function tc)) [?o1])
              = map Inr ?ps"
    and ob: "UnmarshalParams canned_json (cf_Arguments (ctc_Function ?o2))
              = Inl ''invalid character''"
    and oq: "map (UnmarshalParams canned_json) (map (\<lambda>tc. cf_Arguments (ctc_Function tc)) [?o3])
              = map Inr ?qs"
    using good bad empty by (simp_all add: openai_call_def)
  have a: "anthropic_receives canned_json (canned_anthropic 200 ''three calls'') [user_hello]
             [queryFindings] ?aresp"
    by (simp add: anthropic_receives_def canned_json_def canned_anthropic_def StatusOK_def
          canned_UnmarshalApiResp_def)
  have as: "anthropic_vendor_calls ?aresp = [?a1] @ ?a2 # [?a3]"
    by (simp add: anthropic_vendor_calls_def anthropic_completion_def text_block_def tool_use_def)
  have ap: "map (UnmarshalParams canned_json) (map ab_Input [?a1]) = map Inr ?ps"
    and ab: "UnmarshalParams canned_json (ab_Input ?a2)
              = Inl ''cannot unmarshal string into Go value''"
    and aq: "map (UnmarshalParams canned_json) (map ab_Input [?a3]) = map Inr ?qs"
    using good bad' empty by (simp_all add: tool_use_def)
  from m ms mp mb mq o oc os op ob oq a as ap ab aq
    bad_arguments_recovered [where J = canned_json
      and mc = "canned_mistral 200 ''three calls''" and messages = "[user_hello]"
      and tools = "[queryFindings]" and mresp = ?mresp
      and pre = "[?m1]" and tc = ?m2 and post = "[?m3]" and ps = ?ps and qs = ?qs
      and err = "''invalid character''"
      and oc = "canned_openai (Inr (openai_completion [?ochoice]))"
      and oresp = "openai_completion [?ochoice]" and choice = ?ochoice and rest = "[]"
      and opre = "[?o1]" and otc = ?o2 and opost = "[?o3]" and ops = ?ps and oqs = ?qs
      and oerr = "''invalid character''"
      and ac = "canned_anthropic 200 ''three calls''" and aresp = ?aresp
      and apre = "[?a1]" and block = ?a2 and apost = "[?a3]" and aps = ?ps and aqs = ?qs
      and aerr = "''cannot unmarshal string into Go value''"]
  show ?thesis
    using bad bad'
    by (simp add: mistral_call_def openai_call_def tool_use_def)
qed

text \<open>
  C3. With an empty Tool sequence the request of every adapter has no tools field: the
  fields that the Mistral-style adapter marshals and the request map of the
  Anthropic-style adapter have no key \<^verbatim>\<open>tools\<close>, and in the parameters that the
  OpenAI-style adapter hands to the vendor's library \<^verbatim>\<open>Tools\<close> is never assigned:
  it is the nil slice of an unset field, not an empty list.
\<close>

theorem no_tools_field_without_tools:
  "map_of (mistralRequest_fields (mistral_request J mc messages [])) ''tools'' = None
   \<and> map_of (anthropic_buildRequest ac messages []) ''tools'' = None
   \<and> np_Tools (openai_params J messages []) = None
   \<and> np_Tools (openai_params J messages []) \<noteq> Some []"
proof (intro conjI)
  show "map_of (mistralRequest_fields (mistral_request J mc messages [])) ''tools'' = None"
    by (simp add: mistralRequest_fields_def mistral_request_def)
  show "map_of (anthropic_buildRequest ac messages []) ''tools'' = None"
    by (simp add: anthropic_buildRequest_def Let_def update_conv' split: prod.splits)
  show "np_Tools (openai_params J messages []) = None"
    by (simp add: openai_params_def)
  then show "np_Tools (openai_params J messages []) \<noteq> Some []"
    by simp
qed

theorem no_tools_field_without_tools_witness:
  "map_of (mistralRequest_fields
             (mistral_request canned_json (canned_mistral 200 ''one call'') [user_hello] []))
     ''tools'' = None
   \<and> map_of (anthropic_buildRequest (canned_anthropic 200 ''one call'') [user_hello] [])
       ''tools'' = None
   \<and> np_Tools (openai_params canned_json [user_hello] []) = None"
  using no_tools_field_without_tools [of canned_json "canned_mistral 200 ''one call''"
      "[user_hello]" "canned_anthropic 200 ''one call''"]
  by simp

text \<open>
  C7, as stated, at the OpenAI-style adapter: called with one tool, the adapter hands the
  tool to the vendor's library and leaves the tool choice unset, so the request does not
  set it to \<^verbatim>\<open>auto\<close>.
\<close>

theorem openai_tool_choice_counterexample:
  "np_Tools (openai_params canned_json [user_hello] [queryFindings]) \<noteq> None
   \<and> np_ToolChoice (openai_params canned_json [user_hello] [queryFindings]) \<noteq> Some ''auto''"
  by (simp add: openai_params_def)

text \<open>
  C7, amended. Called with a non-empty Tool sequence, the Mistral-style adapter sends the
  converted tools and sets \<^verbatim>\<open>tool_choice\<close> to \<^verbatim>\<open>auto\<close> in the request it
  marshals; the OpenAI-style adapter hands the converted tools to the vendor's library and
  leaves the tool choice unset.
\<close>

theorem tool_choice_with_tools:
  "tools \<noteq> [] \<Longrightarrow>
     map_of (mistralRequest_fields (mistral_request J mc messages tools)) ''tool_choice''
       = Some (VStr ''auto'')
     \<and> map_of (mistralRequest_fields (mistral_request J mc messages tools)) ''tools''
       = Some (VList (map mistralTool_json (mistral_convertTools tools)))
     \<and> length (mistral_convertTools tools) = length tools
     \<and> np_Tools (openai_params J messages tools) = Some (openai_tools_loop tools [])
     \<and> length (openai_tools_loop tools []) = length tools
     \<and> np_ToolChoice (openai_params J messages tools) = None"
  by (simp add: mistralRequest_fields_def mistral_request_def mistral_convertTools_def
        mistral_convertTools_loop_map openai_params_def openai_tools_loop_map Let_def)

theorem tool_choice_with_tools_witness:
  "[queryFindings] \<noteq> []
   \<and> map_of (mistralRequest_fields
               (mistral_request canned_json (canned_mistral 200 ''one call'') [user_hello]
                  [queryFindings])) ''tool_choice''
       = Some (VStr ''auto'')
   \<and> map_option length (np_Tools (openai_params canned_json [user_hello] [queryFindings]))
       = Some 1
   \<and> np_ToolChoice (openai_params canned_json [user_hello] [queryFindings]) = None"
  using tool_choice_with_tools [of "[queryFindings]" canned_json
      "canned_mistral 200 ''one call''" "[user_hello]"]
  by simp

text \<open>
  C4, as stated, at the OpenAI-style adapter: with no credential in the environment the
  constructor returns a client and no error.
\<close>

theorem openai_constructor_counterexample:
  "Getenv (\<lambda>k. None) ''OPENAI_API_KEY'' = []
   \<and> \<not> isl (NewOpenAIClient canned_NewClient (\<lambda>k. None))"
  by (simp add: Getenv_def NewOpenAIClient_def)

text \<open>
  C4, amended. The constructors of the Mistral-style and the Anthropic-style adapter read
  the vendor's credential from the process environment (\<^verbatim>\<open>MISTRAL_API_KEY\<close>,
  \<^verbatim>\<open>ANTHROPIC_API_KEY\<close>): when it is unset or empty they return a configuration error
  that names the variable, and otherwise a client that holds the credential, so a client
  of theirs never lacks one at call time. The constructor of the OpenAI-style adapter
  returns the client that the vendor's library builds from the environment, and never an
  error.
\<close>

theorem constructors_read_environment:
  "(Getenv env ''MISTRAL_API_KEY'' = [] \<longrightarrow>
      NewMistralClient env http model = Inl ''MISTRAL_API_KEY environment variable not set'')
   \<and> (Getenv env ''MISTRAL_API_KEY'' \<noteq> [] \<longrightarrow>
        (\<exists>c. NewMistralClient env http model = Inr c
            \<and> mc_apiKey c = Getenv env ''MISTRAL_API_KEY''))
   \<and> (Getenv env ''ANTHROPIC_API_KEY'' = [] \<longrightarrow>
        NewAnthropicClient env http model
          = Inl ''ANTHROPIC_API_KEY environment variable not set'')
   \<and> (Getenv env ''ANTHROPIC_API_KEY'' \<noteq> [] \<longrightarrow>
        (\<exists>c. NewAnthropicClient env http model = Inr c
            \<and> ac_apikey c = Getenv env ''ANTHROPIC_API_KEY''))
   \<and> NewOpenAIClient NewClient env = Inr \<lparr>oc_client = NewClient env\<rparr>"
  by (simp add: NewMistralClient_def NewAnthropicClient_def NewOpenAIClient_def Let_def)

theorem constructors_read_environment_witness:
  "Getenv [''ANTHROPIC_API_KEY'' \<mapsto> ''sk-1''] ''MISTRAL_API_KEY'' = []
   \<and> NewMistralClient [''ANTHROPIC_API_KEY'' \<mapsto> ''sk-1''] (\<lambda>req. DoFailed ''offline'') []
       = Inl ''MISTRAL_API_KEY environment variable not set''
   \<and> Getenv [''ANTHROPIC_API_KEY'' \<mapsto> ''sk-1''] ''ANTHROPIC_API_KEY'' = ''sk-1''
   \<and> isl (NewAnthropicClient (\<lambda>k. None) (\<lambda>req. DoFailed ''offline'') [])
   \<and> \<not> isl (NewAnthropicClient [''ANTHROPIC_API_KEY'' \<mapsto> ''sk-1'']
               (\<lambda>req. DoFailed ''offline'') [])
   \<and> \<not> isl (NewMistralClient [''MISTRAL_API_KEY'' \<mapsto> ''k''] (\<lambda>req. DoFailed ''offline'') [])"
proof -
  have unset: "Getenv [''ANTHROPIC_API_KEY'' \<mapsto> ''sk-1''] ''MISTRAL_API_KEY'' = []"
    and set: "Getenv [''ANTHROPIC_API_KEY'' \<mapsto> ''sk-1''] ''ANTHROPIC_API_KEY'' = ''sk-1''"
    and none: "Getenv (\<lambda>k. None) ''ANTHROPIC_API_KEY'' = []"
    and mset: "Getenv [''MISTRAL_API_KEY'' \<mapsto> ''k''] ''MISTRAL_API_KEY'' = ''k''"
    by (simp_all add: Getenv_def)
  from unset set
    constructors_read_environment [of "[''ANTHROPIC_API_KEY'' \<mapsto> ''sk-1'']"
      "\<lambda>req. DoFailed ''offline''" "[]" canned_NewClient]
  have a: "NewMistralClient [''ANTHROPIC_API_KEY'' \<mapsto> ''sk-1''] (\<lambda>req. DoFailed ''offline'') []
             = Inl ''MISTRAL_API_KEY environment variable not set''"
    and b: "\<not> isl (NewAnthropicClient [''ANTHROPIC_API_KEY'' \<mapsto> ''sk-1'']
               (\<lambda>req. DoFailed ''offline'') [])"
    by auto
  from none
    constructors_read_environment [of "\<lambda>k. None" "\<lambda>req. DoFailed ''offline''" "[]"
      canned_NewClient]
  have c: "isl (NewAnthropicClient (\<lambda>k. None) (\<lambda>req. DoFailed ''offline'') [])"
    by simp
  from mset
    constructors_read_environment [of "[''MISTRAL_API_KEY'' \<mapsto> ''k'']"
      "\<lambda>req. DoFailed ''offline''" "[]" canned_NewClient]
  have d: "\<not> isl (NewMistralClient [''MISTRAL_API_KEY'' \<mapsto> ''k'']
                    (\<lambda>req. DoFailed ''offline'') [])"
    by auto
  from unset set a b c d show ?thesis by simp
qed

text \<open>
  C8 at the OpenAI-style adapter: when the vendor's library returns a decoded completion
  with an empty list of choices, \<^verbatim>\<open>Chat\<close> returns neither a Response nor an error; the
  read of the first choice panics. The Mistral-style adapter checks the length first.
\<close>

theorem openai_Chat_no_choices_panics:
  "openai_Chat J (canned_openai (Inr (openai_completion []))) messages tools
     = Panic ''runtime error: index out of range [0] with length 0''"
  by (simp add: openai_Chat_def canned_openai_def openai_completion_def)

text \<open>
  C10. An assistant Message with tool calls is encoded by the OpenAI-style adapter as an
  assistant message that holds the tool calls and no content, whatever the Content of the
  Message is; when the Content is not empty, the Anthropic-style adapter encodes it as a
  text block in front of the tool_use blocks.
\<close>

theorem assistant_content_with_tool_calls:
  "m_Role msg = RoleAssistant \<and> m_ToolCalls msg \<noteq> [] \<and> m_Content msg \<noteq> [] \<Longrightarrow>
     openai_appendMessage J msg openaiMessages =
       openaiMessages
         @ [OfAssistant
              \<lparr>amp_Content = None,
               amp_ToolCalls =
                 map (\<lambda>tc. \<lparr>tcp_ID = tc_ID tc, tcp_Type = ''function'',
                              tcp_Function =
                                \<lparr>fp_Name = tc_Name tc,
                                 fp_Arguments =
                                   (case Marshal J (map_value (tc_Parameters tc)) of
                                      Inl _ \<Rightarrow> [] | Inr b \<Rightarrow> b)\<rparr>\<rparr>)
                   (m_ToolCalls msg)\<rparr>]
     \<and> map_of (anthropic_message msg) ''role'' = Some (VStr ''assistant'')
     \<and> map_of (anthropic_message msg) ''content'' =
         Some (VList (VMap [(''type'', VStr ''text''), (''text'', VStr (m_Content msg))]
                      # map (\<lambda>tc. VMap [(''type'', VStr ''tool_use''), (''id'', VStr (tc_ID tc)),
                                         (''name'', VStr (tc_Name tc)),
                                         (''input'', map_value (tc_Parameters tc))])
                          (m_ToolCalls msg)))"
  by (simp add: openai_appendMessage_def openai_appendToolCalls_map anthropic_message_def
        anthropic_appendToolUse_map Role_defs update_conv' Let_def comp_def)

theorem assistant_content_with_tool_calls_witness:
  "m_Role assistant_call = RoleAssistant \<and> m_ToolCalls assistant_call \<noteq> []
   \<and> m_Content assistant_call = ''Let me check.''
   \<and> np_Messages (openai_params canned_json [assistant_call] []) =
       [OfAssistant
          \<lparr>amp_Content = None,
           amp_ToolCalls =
             [\<lparr>tcp_ID = ''t1'', tcp_Type = ''function'',
               tcp_Function = \<lparr>fp_Name = ''queryFindings'', fp_Arguments = good_args\<rparr>\<rparr>]\<rparr>]
   \<and> map_of (anthropic_message assistant_call) ''content'' =
       Some (VList [VMap [(''type'', VStr ''text''), (''text'', VStr ''Let me check.'')],
                    VMap [(''type'', VStr ''tool_use''), (''id'', VStr ''t1''),
                          (''name'', VStr ''queryFindings''),
                          (''input'', VMap [(''severity'', VStr ''CRITICAL'')])] ])"
proof -
  have h: "m_Role assistant_call = RoleAssistant \<and> m_ToolCalls assistant_call \<noteq> []
             \<and> m_Content assistant_call \<noteq> []"
    by (simp add: assistant_call_def)
  from assistant_content_with_tool_calls [OF h, of canned_json "[]"]
  show ?thesis
    by (simp add: assistant_call_def openai_params_def canned_json_def map_value_def)
qed

text \<open>
  C6, as stated, at a conversation with two system messages: the Anthropic-style adapter
  sends the content of the second one as the system field, not the content of the first.
\<close>

theorem first_system_message_counterexample:
  "m_Content (hd (system_messages [system_msg ''A'', user_hello, system_msg ''B''])) = ''A''
   \<and> map_of (anthropic_buildRequest (canned_anthropic 200 ''one call'')
               [system_msg ''A'', user_hello, system_msg ''B''] []) ''system''
       = Some (VStr ''B'')
   \<and> map_of (anthropic_buildRequest (canned_anthropic 200 ''one call'')
               [system_msg ''A'', user_hello, system_msg ''B''] []) ''system''
       \<noteq> Some (VStr (m_Content
                        (hd (system_messages [system_msg ''A'', user_hello, system_msg ''B'']))))"
  by (simp add: anthropic_buildRequest_def anthropic_buildRequest_loop_eq update_conv' Let_def
        system_messages_def system_msg_def user_hello_def Role_defs)

text \<open>
  C6, amended. The Anthropic-style adapter sends the messages that are not system messages,
  in order, none of them with the role \<^verbatim>\<open>system\<close>, and sends the content of the last
  system message (the only one when there is one) as the top-level system field; it omits
  the field when there is no system message or that content is empty. The Mistral-style
  and the OpenAI-style adapter convert message by message and keep a system message in
  its place, as a message of role \<^verbatim>\<open>system\<close> with the same content.
\<close>

theorem system_message_placement:
  "map_of (anthropic_buildRequest ac messages tools) ''messages''
     = Some (VList (map (\<lambda>msg. VMap (anthropic_message msg)) (conversation_messages messages)))
   \<and> (\<forall>msg \<in> set (conversation_messages messages).
         map_of (anthropic_message msg) ''role'' \<noteq> Some (VStr ''system''))
   \<and> map_of (anthropic_buildRequest ac messages tools) ''system''
       = (if last_system_content messages = [] then None
          else Some (VStr (last_system_content messages)))
   \<and> mistral_convertMessages J messages = map (mistral_convertMessage J) messages
   \<and> (m_Role msg = RoleSystem \<longrightarrow>
        mistral_convertMessage J msg
          = \<lparr>mm_Role = ''system'', mm_Content = m_Content msg, mm_ToolCallID = [],
             mm_ToolCalls = []\<rparr>)
   \<and> np_Messages (openai_params J messages tools)
       = concat (map (\<lambda>msg. openai_appendMessage J msg []) messages)
   \<and> (m_Role msg = RoleSystem \<longrightarrow> openai_appendMessage J msg [] = [OfSystem (m_Content msg)])"
proof (intro conjI)
  show "map_of (anthropic_buildRequest ac messages tools) ''messages''
     = Some (VList (map (\<lambda>msg. VMap (anthropic_message msg)) (conversation_messages messages)))"
    by (simp add: anthropic_buildRequest_def anthropic_buildRequest_loop_eq update_conv' Let_def
          comp_def)
  show "\<forall>msg \<in> set (conversation_messages messages).
         map_of (anthropic_message msg) ''role'' \<noteq> Some (VStr ''system'')"
    by (simp add: conversation_messages_def anthropic_message_role)
  show "map_of (anthropic_buildRequest ac messages tools) ''system''
       = (if last_system_content messages = [] then None
          else Some (VStr (last_system_content messages)))"
    using last_system_content_eq [of messages]
    by (simp add: anthropic_buildRequest_def anthropic_buildRequest_loop_eq update_conv' Let_def)
  show "mistral_convertMessages J messages = map (mistral_convertMessage J) messages"
    by (simp add: mistral_convertMessages_def mistral_convertMessages_loop_map)
  show "m_Role msg = RoleSystem \<longrightarrow>
        mistral_convertMessage J msg
          = \<lparr>mm_Role = ''system'', mm_Content = m_Content msg, mm_ToolCallID = [],
             mm_ToolCalls = []\<rparr>"
    by (simp add: mistral_convertMessage_def)
  show "np_Messages (openai_params J messages tools)
       = concat (map (\<lambda>msg. openai_appendMessage J msg []) messages)"
    by (simp add: openai_params_def openai_messages_loop_concat Let_def)
  show "m_Role msg = RoleSystem \<longrightarrow> openai_appendMessage J msg [] = [OfSystem (m_Content msg)]"
    by (simp add: openai_appendMessage_def SystemMessage_def)
qed

theorem system_message_placement_witness:
  "conversation_messages [system_msg ''A'', user_hello, system_msg ''B''] = [user_hello]
   \<and> map_of (anthropic_buildRequest (canned_anthropic 200 ''one call'')
               [system_msg ''A'', user_hello, system_msg ''B''] []) ''messages''
       = Some (VList [VMap [(''role'', VStr ''user''), (''content'', VStr ''hello'')] ])
   \<and> map_of (anthropic_buildRequest (canned_anthropic 200 ''one call'')
               [system_msg ''A'', user_hello, system_msg ''B''] []) ''system''
       = Some (VStr ''B'')
   \<and> m_Role (system_msg ''A'') = RoleSystem
   \<and> map mm_Role (mistral_convertMessages canned_json
                     [system_msg ''A'', user_hello, system_msg ''B''])
       = [''system'', ''user'', ''system'']
   \<and> np_Messages (openai_params canned_json [system_msg ''A'', user_hello, system_msg ''B''] [])
       = [OfSystem ''A'', OfUser ''hello'', OfSystem ''B'']"
proof -
  let ?ms = "[system_msg ''A'', user_hello, system_msg ''B'']"
  have conv: "conversation_messages ?ms = [user_hello]"
    by (simp add: conversation_messages_def system_msg_def user_hello_def Role_defs)
  have last: "last_system_content ?ms = ''B''"
    by (simp add: last_system_content_def system_messages_def system_msg_def user_hello_def
          Role_defs)
  have sys: "m_Role (system_msg ''A'') = RoleSystem" "m_Role (system_msg ''B'') = RoleSystem"
    by (simp_all add: system_msg_def)
  have user: "anthropic_message user_hello = [(''role'', VStr ''user''), (''content'', VStr ''hello'')]"
    "mistral_convertMessage canned_json user_hello
       = \<lparr>mm_Role = ''user'', mm_Content = ''hello'', mm_ToolCallID = [], mm_ToolCalls = []\<rparr>"
    "openai_appendMessage canned_json user_hello [] = [OfUser ''hello'']"
    by (simp_all add: anthropic_message_def mistral_convertMessage_def openai_appendMessage_def
          UserMessage_def user_hello_def Role_defs)
  have contents: "m_Content (system_msg ''A'') = ''A''" "m_Content (system_msg ''B'') = ''B''"
    by (simp_all add: system_msg_def)
  from system_message_placement [of "canned_anthropic 200 ''one call''" ?ms "[]" canned_json
      "system_msg ''A''"]
    system_message_placement [of "canned_anthropic 200 ''one call''" ?ms "[]" canned_json
      "system_msg ''B''"]
  show ?thesis
    by (simp add: conv last sys user contents)
qed

text \<open>
  C5, as stated, at the Anthropic-style adapter: on HTTP 429 with the body
  \<^verbatim>\<open>{"message":"say \"hi\""}\<close> the envelope holds the message \<^verbatim>\<open>say "hi"\<close>, and the
  returned error does not carry that message: its text is the status with the raw body.
\<close>

theorem anthropic_error_envelope_counterexample:
  "anthropic_rejected canned_json (canned_anthropic 429 quoted_body) [user_hello] [] 429
     quoted_body
   \<and> envelope_message canned_json quoted_body = Some ''say \"hi\"''
   \<and> anthropic_Chat canned_json (canned_anthropic 429 quoted_body) [user_hello] []
       = Fail (''API error (status 429): '' @ quoted_body)
   \<and> \<not> error_carries
         (anthropic_Chat canned_json (canned_anthropic 429 quoted_body) [user_hello] []) 429
         (spec_error_detail canned_json quoted_body)"
proof -
  have rej: "anthropic_rejected canned_json (canned_anthropic 429 quoted_body) [user_hello] []
               429 quoted_body"
    by (simp add: anthropic_rejected_def canned_json_def canned_anthropic_def StatusOK_def)
  have env: "envelope_message canned_json quoted_body = Some ''say \"hi\"''"
    by (simp add: envelope_message_def canned_json_def canned_UnmarshalMistralError_def
          quoted_body_def rate_limited_body_def)
  have chat: "anthropic_Chat canned_json (canned_anthropic 429 quoted_body) [user_hello] []
       = Fail (''API error (status 429): '' @ quoted_body)"
    by (simp add: anthropic_Chat_def canned_json_def canned_anthropic_def StatusOK_def fmt_d_def)
  have absent: "\<not> sublist ''say \"hi\"'' (''API error (status 429): '' @ quoted_body)"
    unfolding quoted_body_def by code_simp
  show ?thesis
    using absent by (simp add: rej env chat error_carries_def spec_error_detail_def)
qed

text \<open>
  C5, amended. In the Mistral-style adapter a status other than 200 makes \<^verbatim>\<open>Chat\<close>
  return an error that carries the status code and the message of the error envelope when
  the body decodes as an envelope with a message, the raw body otherwise. In the
  Anthropic-style adapter it makes \<^verbatim>\<open>Chat\<close> return an error that carries the status
  code and the raw body, whatever the body holds. The OpenAI-style adapter returns the
  error of the vendor's library behind the words \<^verbatim>\<open>request failed\<close>.
\<close>

theorem non_success_status_error:
  "(mistral_rejected J mc messages tools StatusCode respBody \<longrightarrow>
      mistral_Chat J mc messages tools
        = (case envelope_message J respBody of
             Some m \<Rightarrow> Fail (''(HTTP Error '' @ fmt_d StatusCode @ '') '' @ m)
           | None \<Rightarrow> Fail (''HTTP '' @ fmt_d StatusCode @ '': '' @ respBody))
      \<and> error_carries (mistral_Chat J mc messages tools) StatusCode
          (spec_error_detail J respBody))
   \<and> (anthropic_rejected J ac messages tools StatusCode' body \<longrightarrow>
        anthropic_Chat J ac messages tools
          = Fail (''API error (status '' @ fmt_d StatusCode' @ ''): '' @ body)
        \<and> error_carries (anthropic_Chat J ac messages tools) StatusCode' body)
   \<and> (oc_client oc (openai_params J messages tools) = Inl err \<longrightarrow>
        openai_Chat J oc messages tools = Fail (''request failed: '' @ err))"
proof (intro conjI impI)
  assume rej: "mistral_rejected J mc messages tools StatusCode respBody"
  then show chat: "mistral_Chat J mc messages tools
        = (case envelope_message J respBody of
             Some m \<Rightarrow> Fail (''(HTTP Error '' @ fmt_d StatusCode @ '') '' @ m)
           | None \<Rightarrow> Fail (''HTTP '' @ fmt_d StatusCode @ '': '' @ respBody))"
    by (auto simp: mistral_rejected_def mistral_Chat_def envelope_message_def
             split: sum.splits)
  have a: "sublist (fmt_d StatusCode) (''(HTTP Error '' @ fmt_d StatusCode @ '') '' @ m)"
    and b: "sublist m (''(HTTP Error '' @ fmt_d StatusCode @ '') '' @ m)"
    and c: "sublist (fmt_d StatusCode) (''HTTP '' @ fmt_d StatusCode @ '': '' @ respBody)"
    and d: "sublist respBody (''HTTP '' @ fmt_d StatusCode @ '': '' @ respBody)" for m
    by (rule sublist_appendI, rule sublist_after, rule sublist_appendI, rule sublist_after)
  show "error_carries (mistral_Chat J mc messages tools) StatusCode (spec_error_detail J respBody)"
    unfolding chat error_carries_def spec_error_detail_def
    using a b c d by (simp split: option.splits)
next
  assume rej: "anthropic_rejected J ac messages tools StatusCode' body"
  then show chat: "anthropic_Chat J ac messages tools
          = Fail (''API error (status '' @ fmt_d StatusCode' @ ''): '' @ body)"
    by (auto simp: anthropic_rejected_def anthropic_Chat_def split: sum.splits)
  have "sublist (fmt_d StatusCode') (''API error (status '' @ fmt_d StatusCode' @ ''): '' @ body)"
    by (rule sublist_appendI)
  moreover have "sublist body (''API error (status '' @ fmt_d StatusCode' @ ''): '' @ body)"
    by (rule sublist_after)
  ultimately show "error_carries (anthropic_Chat J ac messages tools) StatusCode' body"
    unfolding chat error_carries_def by simp
next
  assume "oc_client oc (openai_params J messages tools) = Inl err"
  then show "openai_Chat J oc messages tools = Fail (''request failed: '' @ err)"
    by (simp add: openai_Chat_def)
qed

theorem non_success_status_error_witness:
  "mistral_rejected canned_json (canned_mistral 429 rate_limited_body) [user_hello] [] 429
     rate_limited_body
   \<and> mistral_Chat canned_json (canned_mistral 429 rate_limited_body) [user_hello] []
       = Fail ''(HTTP Error 429) rate limited''
   \<and> mistral_rejected canned_json (canned_mistral 500 ''upstream down'') [user_hello] [] 500
       ''upstream down''
   \<and> mistral_Chat canned_json (canned_mistral 500 ''upstream down'') [user_hello] []
       = Fail ''HTTP 500: upstream down''
   \<and> anthropic_rejected canned_json (canned_anthropic 429 rate_limited_body) [user_hello] [] 429
       rate_limited_body
   \<and> anthropic_Chat canned_json (canned_anthropic 429 rate_limited_body) [user_hello] []
       = Fail ''API error (status 429): {\"message\":\"rate limited\"}''
   \<and> error_carries
       (anthropic_Chat canned_json (canned_anthropic 429 rate_limited_body) [user_hello] [])
       429 rate_limited_body
   \<and> openai_Chat canned_json (canned_openai (Inl ''429 Too Many Requests'')) [user_hello] []
       = Fail ''request failed: 429 Too Many Requests''"
proof -
  have m: "mistral_rejected canned_json (canned_mistral 429 rate_limited_body) [user_hello] []
             429 rate_limited_body"
    and m': "mistral_rejected canned_json (canned_mistral 500 ''upstream down'') [user_hello] []
             500 ''upstream down''"
    by (simp_all add: mistral_rejected_def canned_json_def canned_mistral_def StatusOK_def)
  have a: "anthropic_rejected canned_json (canned_anthropic 429 rate_limited_body) [user_hello]
             [] 429 rate_limited_body"
    by (simp add: anthropic_rejected_def canned_json_def canned_anthropic_def StatusOK_def)
  have o: "oc_client (canned_openai (Inl ''429 Too Many Requests''))
             (openai_params canned_json [user_hello] []) = Inl ''429 Too Many Requests''"
    by (simp add: canned_openai_def)
  have env: "envelope_message canned_json rate_limited_body = Some ''rate limited''"
    by (simp add: envelope_message_def canned_json_def canned_UnmarshalMistralError_def)
  have env': "envelope_message canned_json ''upstream down'' = None"
    by (simp add: envelope_message_def canned_json_def canned_UnmarshalMistralError_def
          rate_limited_body_def quoted_body_def)
  have d: "fmt_d 429 = ''429''" "fmt_d 500 = ''500''"
    by (simp_all add: fmt_d_def)
  note at_429 =
    non_success_status_error [of canned_json "canned_mistral 429 rate_limited_body"
      "[user_hello]" "[]" 429 rate_limited_body "canned_anthropic 429 rate_limited_body" 429
      rate_limited_body "canned_openai (Inl ''429 Too Many Requests'')" "''429 Too Many Requests''"]
  from at_429 m
  have "mistral_Chat canned_json (canned_mistral 429 rate_limited_body) [user_hello] []
       = (case envelope_message canned_json rate_limited_body of
            Some m \<Rightarrow> Fail (''(HTTP Error '' @ fmt_d 429 @ '') '' @ m)
          | None \<Rightarrow> Fail (''HTTP '' @ fmt_d 429 @ '': '' @ rate_limited_body))"
    by blast
  then have first: "mistral_Chat canned_json (canned_mistral 429 rate_limited_body) [user_hello] []
       = Fail ''(HTTP Error 429) rate limited''"
    by (simp add: env d)
  from at_429 a
  have "anthropic_Chat canned_json (canned_anthropic 429 rate_limited_body) [user_hello] []
       = Fail (''API error (status '' @ fmt_d 429 @ ''): '' @ rate_limited_body)"
    and third: "error_carries
       (anthropic_Chat canned_json (canned_anthropic 429 rate_limited_body) [user_hello] [])
       429 rate_limited_body"
    by blast+
  then have second: "anthropic_Chat canned_json (canned_anthropic 429 rate_limited_body)
         [user_hello] []
       = Fail ''API error (status 429): {\"message\":\"rate limited\"}''"
    by (simp add: d rate_limited_body_def)
  from at_429 o
  have fourth: "openai_Chat canned_json (canned_openai (Inl ''429 Too Many Requests''))
         [user_hello] []
       = Fail ''request failed: 429 Too Many Requests''"
    by simp
  from m'
    non_success_status_error [of canned_json "canned_mistral 500 ''upstream down''"
      "[user_hello]" "[]" 500 "''upstream down''" "canned_anthropic 429 rate_limited_body" 429
      rate_limited_body "canned_openai (Inl ''429 Too Many Requests'')" "''429 Too Many Requests''"]
  have "mistral_Chat canned_json (canned_mistral 500 ''upstream down'') [user_hello] []
       = (case envelope_message canned_json ''upstream down'' of
            Some m \<Rightarrow> Fail (''(HTTP Error '' @ fmt_d 500 @ '') '' @ m)
          | None \<Rightarrow> Fail (''HTTP '' @ fmt_d 500 @ '': '' @ ''upstream down''))"
    by blast
  then have fifth: "mistral_Chat canned_json (canned_mistral 500 ''upstream down'') [user_hello] []
       = Fail ''HTTP 500: upstream down''"
    by (simp add: env' d)
  from m m' a first second third fourth fifth show ?thesis
    by simp
qed

end
